theory Spec2Isabelle
  imports Complex_Main "HOL-Library.Log_Nat"
begin

section \<open>The ledger store\<close>

text \<open>
  The supplier side of the ledger: the tables \<open>suppliers\<close>, \<open>purchases\<close> and
  \<open>payments\<close> of \<^verbatim>\<open>models/database.py\<close> and the repositories
  \<^verbatim>\<open>models/supplier.py\<close>, \<^verbatim>\<open>models/purchase.py\<close>, \<^verbatim>\<open>models/payment.py\<close>.
  The customer side (customers, sales, receipts) is never read or written by these
  repositories and is left out.

  Monetary values are binary doubles, as the source has them: Python floats, stored in
  columns that SQLite computes with as reals (see the next subsection). The columns
  \<open>created_at\<close> and \<open>updated_at\<close> (wall-clock time) are left out, and with them the
  timestamp triggers. A date is the
  string that every caller hands over, for which the \<^verbatim>\<open>isinstance\<close> test of the
  create methods holds at its first alternative. Strings are lists of characters, each
  read as one code point below 256.
\<close>

subsection \<open>Double arithmetic\<close>

text \<open>
  A double is modelled by the rational number it stands for, and an operation of the
  source on doubles by the exact operation followed by \<open>double\<close>, the rounding to the
  nearest number with a significand of 53 bits, ties going to the even significand.
  The exponent is not bounded: the model is the arithmetic of finite doubles of normal
  magnitude, without overflow, subnormal numbers, infinities or \<^verbatim>\<open>NaN\<close>. Whole numbers
  that SQLite keeps as integers in a \<^verbatim>\<open>DECIMAL\<close> column add and subtract, below
  \<open>2\<^sup>5\<^sup>3\<close>, to the same values. Comparisons are exact, as they are on doubles.
\<close>

type_synonym money = rat

definition pow2 :: "int \<Rightarrow> rat" where
  "pow2 e = (if 0 \<le> e then 2 ^ nat e else 1 / 2 ^ nat (- e))"

text \<open>Rounding to the nearest integer, a tie going to the even one.\<close>

definition round_even :: "rat \<Rightarrow> int" where
  "round_even m =
     (let f = \<lfloor>m\<rfloor>; r = m - of_int f
      in if r < 1 / 2 then f else if 1 / 2 < r then f + 1 else if even f then f else f + 1)"

text \<open>
  The exponent of the last bit of the significand of \<open>y > 0\<close>: with \<open>e = exponent y\<close>
  the quotient \<open>y / 2\<^sup>e\<close> is at least \<open>2\<^sup>5\<^sup>2\<close> and at most \<open>2\<^sup>5\<^sup>3\<close>.
\<close>

definition exponent :: "rat \<Rightarrow> int" where
  "exponent y = (if 1 \<le> y then bitlen \<lfloor>y\<rfloor> - 53 else - bitlen \<lfloor>1 / y\<rfloor> - 52)"

definition double :: "rat \<Rightarrow> rat" where
  "double x =
     (if x = 0 then 0
      else let e = exponent \<bar>x\<bar>
           in sgn x * (of_int (round_even (\<bar>x\<bar> / pow2 e)) * pow2 e))"

text \<open>Addition and subtraction of doubles, in Python and in SQLite.\<close>

definition fadd :: "money \<Rightarrow> money \<Rightarrow> money" where
  "fadd x y = double (x + y)"

definition fsub :: "money \<Rightarrow> money \<Rightarrow> money" where
  "fsub x y = double (x - y)"

text \<open>
  The double that \<^verbatim>\<open>float\<close> reads from a decimal string with two places: \<open>cents 98943\<close>
  is \<^verbatim>\<open>float("989.43")\<close>.
\<close>

definition cents :: "int \<Rightarrow> money" where
  "cents n = double (of_int n / 100)"

subsection \<open>Tables\<close>

record supplier =
  sup_id :: nat
  sup_name :: string
  sup_contact :: "string option"
  sup_address :: "string option"
  sup_balance :: money

record purchase =
  pur_id :: nat
  pur_date :: string
  pur_supplier_id :: nat
  pur_bill_no :: "string option"
  pur_amount :: money
  pur_paid_amount :: money
  pur_items :: "string option"
  pur_notes :: "string option"

record payment =
  pay_id :: nat
  pay_date :: string
  pay_supplier_id :: nat
  pay_purchase_id :: "nat option"
  pay_amount :: money
  pay_mode :: string
  pay_reference_no :: "string option"
  pay_notes :: "string option"

text \<open>
  A database: the rows of each table in insertion order, and for each table the largest
  row id handed out so far (the table \<open>sqlite_sequence\<close> behind \<^verbatim>\<open>AUTOINCREMENT\<close>).
\<close>

record db =
  suppliers :: "supplier list"
  purchases :: "purchase list"
  payments :: "payment list"
  seq_suppliers :: nat
  seq_purchases :: nat
  seq_payments :: nat

text \<open>
  A connection holds the committed database and the database its own statements see;
  the two differ while a transaction is open.
\<close>

record conn =
  committed :: db
  working :: db

text \<open>
  The exceptions of the repositories. \<open>ValueError\<close> is the one class the code raises
  for a failed validation, a missing row and a conflict alike; its message is kept without
  the values that the source formats into it. \<open>IntegrityError\<close> and \<open>OperationalError\<close>
  are the two kinds of \<^verbatim>\<open>sqlite3.Error\<close>: a violated constraint, and a failure of the
  storage engine itself. Queries are taken not to fail.
\<close>

datatype error =
    ValueError string
  | TypeError
  | IntegrityError
  | OperationalError

fun is_sqlite_Error :: "error \<Rightarrow> bool" where
  "is_sqlite_Error IntegrityError = True"
| "is_sqlite_Error OperationalError = True"
| "is_sqlite_Error e = False"

definition empty_db :: db where
  "empty_db = \<lparr>suppliers = [], purchases = [], payments = [],
     seq_suppliers = 0, seq_purchases = 0, seq_payments = 0\<rparr>"

definition connect :: "db \<Rightarrow> conn" where
  "connect d = \<lparr>committed = d, working = d\<rparr>"

subsection \<open>SQL statements\<close>

text \<open>
  A statement maps the database to an error or to a value and the changed database. A
  failing statement changes nothing. The value of an insert is the new row id (\<open>lastrowid\<close>),
  that of an update or delete is the number of rows it touched (\<open>rowcount\<close>).
\<close>

definition next_rowid :: "nat \<Rightarrow> nat list \<Rightarrow> nat" where
  "next_rowid seq ids = Suc (fold max ids seq)"

definition payment_modes :: "string list" where
  "payment_modes = [''cash'', ''bank'', ''cheque'', ''upi'', ''card'']"

definition supplier_by_id :: "db \<Rightarrow> nat \<Rightarrow> supplier option" where
  "supplier_by_id d i = find (\<lambda>s. sup_id s = i) (suppliers d)"

definition purchase_by_id :: "db \<Rightarrow> nat \<Rightarrow> purchase option" where
  "purchase_by_id d i = find (\<lambda>p. pur_id p = i) (purchases d)"

definition payment_by_id :: "db \<Rightarrow> nat \<Rightarrow> payment option" where
  "payment_by_id d i = find (\<lambda>p. pay_id p = i) (payments d)"

text \<open>\<^verbatim>\<open>SELECT amount, paid_amount FROM purchases WHERE id = ? AND supplier_id = ?\<close>\<close>

definition purchase_of_supplier :: "db \<Rightarrow> nat \<Rightarrow> nat \<Rightarrow> purchase option" where
  "purchase_of_supplier d i sid =
     find (\<lambda>p. pur_id p = i \<and> pur_supplier_id p = sid) (purchases d)"

text \<open>
  The trigger \<open>update_supplier_balance_on_purchase\<close>:
  \<^verbatim>\<open>UPDATE suppliers SET balance = balance + NEW.amount - NEW.paid_amount WHERE id = NEW.supplier_id\<close>
\<close>

definition update_supplier_balance_on_purchase :: "nat \<Rightarrow> money \<Rightarrow> money \<Rightarrow> db \<Rightarrow> db" where
  "update_supplier_balance_on_purchase sid amount paid_amount d =
     d\<lparr>suppliers :=
         map (\<lambda>s. if sup_id s = sid
                  then s\<lparr>sup_balance := fsub (fadd (sup_balance s) amount) paid_amount\<rparr>
                  else s)
           (suppliers d)\<rparr>"

text \<open>
  The trigger \<open>update_supplier_balance_on_payment\<close>:
  \<^verbatim>\<open>UPDATE suppliers SET balance = balance - NEW.amount WHERE id = NEW.supplier_id\<close>
\<close>

definition update_supplier_balance_on_payment :: "nat \<Rightarrow> money \<Rightarrow> db \<Rightarrow> db" where
  "update_supplier_balance_on_payment sid amount d =
     d\<lparr>suppliers :=
         map (\<lambda>s. if sup_id s = sid then s\<lparr>sup_balance := fsub (sup_balance s) amount\<rparr>
                  else s)
           (suppliers d)\<rparr>"

text \<open>\<^verbatim>\<open>INSERT INTO suppliers (name, contact, address)\<close>; the name is \<^verbatim>\<open>UNIQUE\<close>.\<close>

definition insert_supplier ::
  "string \<Rightarrow> string option \<Rightarrow> string option \<Rightarrow> db \<Rightarrow> error + nat \<times> db" where
  "insert_supplier name contact address d =
     (if name \<in> set (map sup_name (suppliers d)) then Inl IntegrityError
      else
        let i = next_rowid (seq_suppliers d) (map sup_id (suppliers d)) in
        Inr (i, d\<lparr>suppliers := suppliers d @
                    [\<lparr>sup_id = i, sup_name = name, sup_contact = contact,
                      sup_address = address, sup_balance = 0\<rparr>],
                  seq_suppliers := i\<rparr>))"

text \<open>
  \<^verbatim>\<open>INSERT INTO purchases\<close> with its foreign key and \<^verbatim>\<open>CHECK\<close>s, followed by the
  trigger \<open>update_supplier_balance_on_purchase\<close>.
\<close>

definition insert_purchase ::
  "string \<Rightarrow> nat \<Rightarrow> string option \<Rightarrow> money \<Rightarrow> money \<Rightarrow> string option \<Rightarrow> string option \<Rightarrow>
   db \<Rightarrow> error + nat \<times> db" where
  "insert_purchase date supplier_id bill_no amount paid_amount items notes d =
     (if supplier_by_id d supplier_id = None \<or> amount < 0 \<or> paid_amount < 0
      then Inl IntegrityError
      else
        let i = next_rowid (seq_purchases d) (map pur_id (purchases d)) in
        Inr (i, update_supplier_balance_on_purchase supplier_id amount paid_amount
                  (d\<lparr>purchases := purchases d @
                       [\<lparr>pur_id = i, pur_date = date, pur_supplier_id = supplier_id,
                         pur_bill_no = bill_no, pur_amount = amount,
                         pur_paid_amount = paid_amount, pur_items = items,
                         pur_notes = notes\<rparr>],
                     seq_purchases := i\<rparr>)))"

text \<open>
  \<^verbatim>\<open>INSERT INTO payments\<close> with its foreign keys and \<^verbatim>\<open>CHECK\<close>s, followed by the
  trigger \<open>update_supplier_balance_on_payment\<close>.
\<close>

definition insert_payment ::
  "string \<Rightarrow> nat \<Rightarrow> nat option \<Rightarrow> money \<Rightarrow> string \<Rightarrow> string option \<Rightarrow> string option \<Rightarrow>
   db \<Rightarrow> error + nat \<times> db" where
  "insert_payment date supplier_id purchase_id amount payment_mode reference_no notes d =
     (if supplier_by_id d supplier_id = None
         \<or> (case purchase_id of None \<Rightarrow> False | Some pid \<Rightarrow> purchase_by_id d pid = None)
         \<or> amount \<le> 0
         \<or> payment_mode \<notin> set payment_modes
      then Inl IntegrityError
      else
        let i = next_rowid (seq_payments d) (map pay_id (payments d)) in
        Inr (i, update_supplier_balance_on_payment supplier_id amount
                  (d\<lparr>payments := payments d @
                       [\<lparr>pay_id = i, pay_date = date, pay_supplier_id = supplier_id,
                         pay_purchase_id = purchase_id, pay_amount = amount,
                         pay_mode = payment_mode, pay_reference_no = reference_no,
                         pay_notes = notes\<rparr>],
                     seq_payments := i\<rparr>)))"

text \<open>\<^verbatim>\<open>UPDATE purchases SET paid_amount = paid_amount + ? WHERE id = ?\<close>; the column has \<^verbatim>\<open>CHECK(paid_amount >= 0)\<close>.\<close>

definition add_paid_amount :: "money \<Rightarrow> nat \<Rightarrow> db \<Rightarrow> error + nat \<times> db" where
  "add_paid_amount delta pid d =
     (if \<exists>p \<in> set (purchases d). pur_id p = pid \<and> fadd (pur_paid_amount p) delta < 0
      then Inl IntegrityError
      else Inr (length (filter (\<lambda>p. pur_id p = pid) (purchases d)),
                d\<lparr>purchases :=
                    map (\<lambda>p. if pur_id p = pid
                              then p\<lparr>pur_paid_amount := fadd (pur_paid_amount p) delta\<rparr> else p)
                      (purchases d)\<rparr>))"

text \<open>\<^verbatim>\<open>UPDATE purchases SET paid_amount = paid_amount - ? WHERE id = ?\<close>, under the same \<^verbatim>\<open>CHECK\<close>.\<close>

definition subtract_paid_amount :: "money \<Rightarrow> nat \<Rightarrow> db \<Rightarrow> error + nat \<times> db" where
  "subtract_paid_amount delta pid d =
     (if \<exists>p \<in> set (purchases d). pur_id p = pid \<and> fsub (pur_paid_amount p) delta < 0
      then Inl IntegrityError
      else Inr (length (filter (\<lambda>p. pur_id p = pid) (purchases d)),
                d\<lparr>purchases :=
                    map (\<lambda>p. if pur_id p = pid
                              then p\<lparr>pur_paid_amount := fsub (pur_paid_amount p) delta\<rparr> else p)
                      (purchases d)\<rparr>))"

text \<open>\<^verbatim>\<open>DELETE FROM payments WHERE id = ?\<close>\<close>

definition delete_payment :: "nat \<Rightarrow> db \<Rightarrow> error + nat \<times> db" where
  "delete_payment i d =
     Inr (length (filter (\<lambda>p. pay_id p = i) (payments d)),
          d\<lparr>payments := filter (\<lambda>p. pay_id p \<noteq> i) (payments d)\<rparr>)"

text \<open>\<^verbatim>\<open>DELETE FROM purchases WHERE id = ?\<close>; payments refer to purchases \<^verbatim>\<open>ON DELETE SET NULL\<close>.\<close>

definition delete_purchase :: "nat \<Rightarrow> db \<Rightarrow> error + nat \<times> db" where
  "delete_purchase i d =
     Inr (length (filter (\<lambda>p. pur_id p = i) (purchases d)),
          d\<lparr>purchases := filter (\<lambda>p. pur_id p \<noteq> i) (purchases d),
            payments :=
              (if purchase_by_id d i = None then payments d
               else map (\<lambda>p. if pay_purchase_id p = Some i
                              then p\<lparr>pay_purchase_id := None\<rparr> else p) (payments d))\<rparr>)"

text \<open>\<^verbatim>\<open>DELETE FROM suppliers WHERE id = ?\<close>; purchases and payments refer to suppliers \<^verbatim>\<open>ON DELETE RESTRICT\<close>.\<close>

definition delete_supplier :: "nat \<Rightarrow> db \<Rightarrow> error + nat \<times> db" where
  "delete_supplier i d =
     (if supplier_by_id d i \<noteq> None
         \<and> (i \<in> set (map pur_supplier_id (purchases d))
            \<or> i \<in> set (map pay_supplier_id (payments d)))
      then Inl IntegrityError
      else Inr (length (filter (\<lambda>s. sup_id s = i) (suppliers d)),
                d\<lparr>suppliers := filter (\<lambda>s. sup_id s \<noteq> i) (suppliers d)\<rparr>))"

text \<open>
  The dynamic updates: a column is assigned exactly when its parameter is not \<^verbatim>\<open>None\<close>.
  A supplier's new name must differ from the name of every other supplier.
\<close>

definition set_opt :: "'a option \<Rightarrow> 'a \<Rightarrow> 'a" where
  "set_opt new old = (case new of None \<Rightarrow> old | Some v \<Rightarrow> v)"

definition set_opt_col :: "'a option \<Rightarrow> 'a option \<Rightarrow> 'a option" where
  "set_opt_col new old = (case new of None \<Rightarrow> old | Some v \<Rightarrow> Some v)"

definition patch_supplier ::
  "string option \<Rightarrow> string option \<Rightarrow> string option \<Rightarrow> supplier \<Rightarrow> supplier" where
  "patch_supplier name contact address s =
     s\<lparr>sup_name := set_opt name (sup_name s),
       sup_contact := set_opt_col contact (sup_contact s),
       sup_address := set_opt_col address (sup_address s)\<rparr>"

definition update_supplier ::
  "string option \<Rightarrow> string option \<Rightarrow> string option \<Rightarrow> nat \<Rightarrow> db \<Rightarrow> error + nat \<times> db" where
  "update_supplier name contact address i d =
     (if supplier_by_id d i \<noteq> None
         \<and> (case name of None \<Rightarrow> False
             | Some n \<Rightarrow> n \<in> set (map sup_name (filter (\<lambda>s. sup_id s \<noteq> i) (suppliers d))))
      then Inl IntegrityError
      else Inr (length (filter (\<lambda>s. sup_id s = i) (suppliers d)),
                d\<lparr>suppliers :=
                    map (\<lambda>s. if sup_id s = i then patch_supplier name contact address s else s)
                      (suppliers d)\<rparr>))"

definition patch_purchase ::
  "string option \<Rightarrow> nat option \<Rightarrow> string option \<Rightarrow> money option \<Rightarrow> money option \<Rightarrow>
   string option \<Rightarrow> string option \<Rightarrow> purchase \<Rightarrow> purchase" where
  "patch_purchase date supplier_id bill_no amount paid_amount items notes p =
     p\<lparr>pur_date := set_opt date (pur_date p),
       pur_supplier_id := set_opt supplier_id (pur_supplier_id p),
       pur_bill_no := set_opt_col bill_no (pur_bill_no p),
       pur_amount := set_opt amount (pur_amount p),
       pur_paid_amount := set_opt paid_amount (pur_paid_amount p),
       pur_items := set_opt_col items (pur_items p),
       pur_notes := set_opt_col notes (pur_notes p)\<rparr>"

definition update_purchase ::
  "string option \<Rightarrow> nat option \<Rightarrow> string option \<Rightarrow> money option \<Rightarrow> money option \<Rightarrow>
   string option \<Rightarrow> string option \<Rightarrow> nat \<Rightarrow> db \<Rightarrow> error + nat \<times> db" where
  "update_purchase date supplier_id bill_no amount paid_amount items notes i d =
     (let rows = map (\<lambda>p. if pur_id p = i
                           then patch_purchase date supplier_id bill_no amount paid_amount
                                  items notes p
                           else p) (purchases d)
      in if \<exists>p \<in> set rows. pur_id p = i \<and>
              (supplier_by_id d (pur_supplier_id p) = None \<or> pur_amount p < 0
               \<or> pur_paid_amount p < 0)
         then Inl IntegrityError
         else Inr (length (filter (\<lambda>p. pur_id p = i) (purchases d)), d\<lparr>purchases := rows\<rparr>))"

definition patch_payment ::
  "string option \<Rightarrow> money option \<Rightarrow> string option \<Rightarrow> string option \<Rightarrow> string option \<Rightarrow>
   payment \<Rightarrow> payment" where
  "patch_payment date amount payment_mode reference_no notes p =
     p\<lparr>pay_date := set_opt date (pay_date p),
       pay_amount := set_opt amount (pay_amount p),
       pay_mode := set_opt payment_mode (pay_mode p),
       pay_reference_no := set_opt_col reference_no (pay_reference_no p),
       pay_notes := set_opt_col notes (pay_notes p)\<rparr>"

definition update_payment ::
  "string option \<Rightarrow> money option \<Rightarrow> string option \<Rightarrow> string option \<Rightarrow> string option \<Rightarrow>
   nat \<Rightarrow> db \<Rightarrow> error + nat \<times> db" where
  "update_payment date amount payment_mode reference_no notes i d =
     (let rows = map (\<lambda>p. if pay_id p = i
                           then patch_payment date amount payment_mode reference_no notes p
                           else p) (payments d)
      in if \<exists>p \<in> set rows. pay_id p = i \<and>
              (pay_amount p \<le> 0 \<or> pay_mode p \<notin> set payment_modes)
         then Inl IntegrityError
         else Inr (length (filter (\<lambda>p. pay_id p = i) (payments d)), d\<lparr>payments := rows\<rparr>))"

subsection \<open>Programs on a connection\<close>

text \<open>
  A method of a repository runs on the connection and ends with a value or with an
  exception, which leaves the connection as the statements before it made it.
\<close>

type_synonym 'a prog = "conn \<Rightarrow> (error + 'a) \<times> conn"

definition ret :: "'a \<Rightarrow> 'a prog" where
  "ret a c = (Inr a, c)"

definition raise :: "error \<Rightarrow> 'a prog" where
  "raise e c = (Inl e, c)"

definition bindP :: "'a prog \<Rightarrow> ('a \<Rightarrow> 'b prog) \<Rightarrow> 'b prog" where
  "bindP m f c = (case m c of (Inl e, c') \<Rightarrow> (Inl e, c') | (Inr a, c') \<Rightarrow> f a c')"

definition thenP :: "'a prog \<Rightarrow> 'b prog \<Rightarrow> 'b prog" where
  "thenP m n = bindP m (\<lambda>_. n)"

definition whenP :: "bool \<Rightarrow> unit prog \<Rightarrow> unit prog" where
  "whenP b m = (if b then m else ret ())"

text \<open>\<^verbatim>\<open>if x:\<close> for an optional row id \<open>x\<close>: neither \<^verbatim>\<open>None\<close> nor \<open>0\<close>.\<close>

definition if_id :: "nat option \<Rightarrow> (nat \<Rightarrow> unit prog) \<Rightarrow> unit prog" where
  "if_id x f = (case x of None \<Rightarrow> ret () | Some i \<Rightarrow> if i = 0 then ret () else f i)"

definition query :: "(db \<Rightarrow> 'a) \<Rightarrow> 'a prog" where
  "query f c = (Inr (f (working c)), c)"

definition execute :: "(db \<Rightarrow> error + 'a \<times> db) \<Rightarrow> 'a prog" where
  "execute stmt c =
     (case stmt (working c) of
        Inl e \<Rightarrow> (Inl e, c)
      | Inr (a, d) \<Rightarrow> (Inr a, c\<lparr>working := d\<rparr>))"

definition commit :: "unit prog" where
  "commit c = (Inr (), c\<lparr>committed := working c\<rparr>)"

definition rollback :: "conn \<Rightarrow> conn" where
  "rollback c = c\<lparr>working := committed c\<rparr>"

text \<open>A storage step that the engine may refuse for reasons of its own.\<close>

definition faulty :: "bool \<Rightarrow> 'a prog \<Rightarrow> 'a prog" where
  "faulty fails m = (if fails then raise OperationalError else m)"

text \<open>\<^verbatim>\<open>try: ... except sqlite3.Error: rollback(); raise\<close>. Any other exception passes through.\<close>

definition except_sqlite_Error :: "'a prog \<Rightarrow> 'a prog" where
  "except_sqlite_Error m c =
     (case m c of
        (Inl e, c') \<Rightarrow> if is_sqlite_Error e then (Inl e, rollback c') else (Inl e, c')
      | (Inr a, c') \<Rightarrow> (Inr a, c'))"

text \<open>
  \<^verbatim>\<open>try: ... except sqlite3.IntegrityError: raise ValueError(msg)\<close>
  \<^verbatim>\<open>except sqlite3.Error: rollback(); raise\<close>
\<close>

definition except_IntegrityError :: "string \<Rightarrow> 'a prog \<Rightarrow> 'a prog" where
  "except_IntegrityError msg m c =
     (case m c of
        (Inl e, c') \<Rightarrow>
          if e = IntegrityError then (Inl (ValueError msg), c')
          else if is_sqlite_Error e then (Inl e, rollback c')
          else (Inl e, c')
      | (Inr a, c') \<Rightarrow> (Inr a, c'))"

subsection \<open>Python's \<open>str.strip()\<close>\<close>

definition is_space :: "char \<Rightarrow> bool" where
  "is_space ch =
     (let n = (of_char ch :: nat)
      in (9 \<le> n \<and> n \<le> 13) \<or> (28 \<le> n \<and> n \<le> 32) \<or> n = 133 \<or> n = 160)"

definition strip :: "string \<Rightarrow> string" where
  "strip s = rev (dropWhile is_space (rev (dropWhile is_space s)))"

section \<open>Payment repository\<close>

text \<open>
  \<open>Payment.get_by_id\<close>: the payment joined with its supplier and left-joined with its
  purchase. Of the row only the payment's own columns are used by the callers below.
\<close>

definition Payment_get_by_id :: "db \<Rightarrow> nat \<Rightarrow> payment option" where
  "Payment_get_by_id d i =
     (case payment_by_id d i of
        None \<Rightarrow> None
      | Some p \<Rightarrow>
          (case supplier_by_id d (pay_supplier_id p) of None \<Rightarrow> None | Some s \<Rightarrow> Some p))"

text \<open>
  \<open>Payment.create\<close>. It has three storage steps: the insert, the update of the linked
  purchase and the commit; \<open>fails\<close> tells which of them the storage engine refuses.
\<close>

datatype step = Step_insert | Step_update | Step_commit

definition Payment_create_with ::
  "(step \<Rightarrow> bool) \<Rightarrow> string \<Rightarrow> nat \<Rightarrow> money \<Rightarrow> string \<Rightarrow> nat option \<Rightarrow> string option \<Rightarrow>
   string option \<Rightarrow> nat prog" where
  "Payment_create_with fails date supplier_id amount payment_mode purchase_id reference_no notes =
     except_sqlite_Error
      (thenP (whenP (amount \<le> 0) (raise (ValueError ''Amount must be positive'')))
      (thenP (whenP (payment_mode \<notin> set payment_modes)
                (raise (ValueError ''Invalid payment mode'')))
      (bindP (query (\<lambda>d. supplier_by_id d supplier_id)) (\<lambda>supplier.
       thenP (whenP (supplier = None) (raise (ValueError ''Supplier does not exist'')))
      (thenP (if_id purchase_id (\<lambda>pid.
                bindP (query (\<lambda>d. purchase_of_supplier d pid supplier_id)) (\<lambda>purchase.
                  case purchase of
                    None \<Rightarrow> raise (ValueError ''Purchase does not exist for this supplier'')
                  | Some p \<Rightarrow>
                      let outstanding = fsub (pur_amount p) (pur_paid_amount p)
                      in whenP (amount > outstanding)
                           (raise (ValueError ''Payment amount exceeds outstanding balance'')))))
      (bindP (faulty (fails Step_insert)
                (execute (insert_payment date supplier_id purchase_id amount payment_mode
                            reference_no notes))) (\<lambda>payment_id.
       thenP (if_id purchase_id (\<lambda>pid.
                thenP (faulty (fails Step_update) (execute (add_paid_amount amount pid)))
                  (ret ())))
      (thenP (faulty (fails Step_commit) commit)
      (ret payment_id)))))))))"

definition Payment_create ::
  "string \<Rightarrow> nat \<Rightarrow> money \<Rightarrow> string \<Rightarrow> nat option \<Rightarrow> string option \<Rightarrow> string option \<Rightarrow>
   nat prog" where
  "Payment_create = Payment_create_with (\<lambda>s. False)"

text \<open>\<open>Payment.update\<close>. The value is that of \<open>rowcount\<close> after the last statement run.\<close>

definition Payment_update ::
  "nat \<Rightarrow> string option \<Rightarrow> money option \<Rightarrow> string option \<Rightarrow> string option \<Rightarrow> string option \<Rightarrow>
   bool prog" where
  "Payment_update i date amount payment_mode reference_no notes =
     except_sqlite_Error
      (bindP (query (\<lambda>d. Payment_get_by_id d i)) (\<lambda>current.
         case current of
           None \<Rightarrow> raise (ValueError ''Payment does not exist'')
         | Some cur \<Rightarrow>
             let old_amount = pay_amount cur in
             thenP (case amount of
                      None \<Rightarrow> ret ()
                    | Some a \<Rightarrow>
                        thenP (whenP (a \<le> 0) (raise (ValueError ''Amount must be positive'')))
                          (if_id (pay_purchase_id cur) (\<lambda>pid.
                             bindP (query (\<lambda>d. purchase_by_id d pid)) (\<lambda>purchase.
                               case purchase of
                                 None \<Rightarrow> raise TypeError
                               | Some p \<Rightarrow>
                                   let other_payments = fsub (pur_paid_amount p) old_amount;
                                       new_total_paid = fadd other_payments a
                                   in whenP (new_total_paid > pur_amount p)
                                        (raise (ValueError
                                           ''Updated payment amount would exceed purchase amount''))))))
            (thenP (case payment_mode of
                      None \<Rightarrow> ret ()
                    | Some m \<Rightarrow>
                        whenP (m \<notin> set payment_modes)
                          (raise (ValueError ''Invalid payment mode'')))
            (if date = None \<and> amount = None \<and> payment_mode = None \<and> reference_no = None
                \<and> notes = None
             then ret False
             else
               bindP (execute (update_payment date amount payment_mode reference_no notes i))
                 (\<lambda>rowcount.
               bindP (case amount of
                        None \<Rightarrow> ret rowcount
                      | Some a \<Rightarrow>
                          (case pay_purchase_id cur of
                             None \<Rightarrow> ret rowcount
                           | Some pid \<Rightarrow>
                               if pid = 0 then ret rowcount
                               else
                                 let amount_difference = fsub a old_amount
                                 in execute (add_paid_amount amount_difference pid)))
                 (\<lambda>rowcount.
               thenP commit (ret (rowcount > 0))))))))"

text \<open>\<open>Payment.delete\<close>\<close>

definition Payment_delete :: "nat \<Rightarrow> bool prog" where
  "Payment_delete i =
     except_sqlite_Error
      (bindP (query (\<lambda>d. Payment_get_by_id d i)) (\<lambda>payment.
         case payment of
           None \<Rightarrow> raise (ValueError ''Payment does not exist'')
         | Some p \<Rightarrow>
             thenP (if_id (pay_purchase_id p) (\<lambda>pid.
                      thenP (execute (subtract_paid_amount (pay_amount p) pid)) (ret ())))
            (bindP (execute (delete_payment i)) (\<lambda>rowcount.
             thenP commit (ret (rowcount > 0))))))"

section \<open>Purchase repository\<close>

text \<open>\<open>Purchase.get_by_id\<close>: the purchase joined with its supplier.\<close>

definition Purchase_get_by_id :: "db \<Rightarrow> nat \<Rightarrow> purchase option" where
  "Purchase_get_by_id d i =
     (case purchase_by_id d i of
        None \<Rightarrow> None
      | Some p \<Rightarrow>
          (case supplier_by_id d (pur_supplier_id p) of None \<Rightarrow> None | Some s \<Rightarrow> Some p))"

definition Purchase_create ::
  "string \<Rightarrow> nat \<Rightarrow> money \<Rightarrow> string option \<Rightarrow> money \<Rightarrow> string option \<Rightarrow> string option \<Rightarrow>
   nat prog" where
  "Purchase_create date supplier_id amount bill_no paid_amount items notes =
     except_sqlite_Error
      (thenP (whenP (amount \<le> 0) (raise (ValueError ''Amount must be positive'')))
      (thenP (whenP (paid_amount < 0) (raise (ValueError ''Paid amount cannot be negative'')))
      (thenP (whenP (paid_amount > amount)
                (raise (ValueError ''Paid amount cannot exceed total amount'')))
      (bindP (query (\<lambda>d. supplier_by_id d supplier_id)) (\<lambda>supplier.
       thenP (whenP (supplier = None) (raise (ValueError ''Supplier does not exist'')))
      (bindP (execute (insert_purchase date supplier_id bill_no amount paid_amount items notes))
         (\<lambda>purchase_id.
       thenP commit (ret purchase_id))))))))"

definition Purchase_update ::
  "nat \<Rightarrow> string option \<Rightarrow> nat option \<Rightarrow> string option \<Rightarrow> money option \<Rightarrow> money option \<Rightarrow>
   string option \<Rightarrow> string option \<Rightarrow> bool prog" where
  "Purchase_update i date supplier_id bill_no amount paid_amount items notes =
     except_sqlite_Error
      (bindP (query (\<lambda>d. Purchase_get_by_id d i)) (\<lambda>current.
         case current of
           None \<Rightarrow> raise (ValueError ''Purchase does not exist'')
         | Some cur \<Rightarrow>
             thenP (case supplier_id of
                      None \<Rightarrow> ret ()
                    | Some sid \<Rightarrow>
                        bindP (query (\<lambda>d. supplier_by_id d sid)) (\<lambda>supplier.
                          whenP (supplier = None)
                            (raise (ValueError ''Supplier does not exist''))))
            (thenP (case amount of
                      None \<Rightarrow> ret ()
                    | Some a \<Rightarrow>
                        whenP (a \<le> 0) (raise (ValueError ''Amount must be positive'')))
            (thenP (case paid_amount of
                      None \<Rightarrow> ret ()
                    | Some pa \<Rightarrow>
                        thenP (whenP (pa < 0)
                                 (raise (ValueError ''Paid amount cannot be negative'')))
                          (let final_amount =
                                 (case amount of None \<Rightarrow> pur_amount cur | Some a \<Rightarrow> a)
                           in whenP (pa > final_amount)
                                (raise (ValueError ''Paid amount cannot exceed total amount''))))
            (if date = None \<and> supplier_id = None \<and> bill_no = None \<and> amount = None
                \<and> paid_amount = None \<and> items = None \<and> notes = None
             then ret False
             else
               bindP (execute (update_purchase date supplier_id bill_no amount paid_amount
                                 items notes i)) (\<lambda>rowcount.
               thenP commit (ret (rowcount > 0))))))))"

definition Purchase_delete :: "nat \<Rightarrow> bool prog" where
  "Purchase_delete i =
     except_sqlite_Error
      (bindP (query (\<lambda>d. length (filter (\<lambda>p. pay_purchase_id p = Some i) (payments d))))
         (\<lambda>payment_count.
       thenP (whenP (payment_count > 0)
                (raise (ValueError ''Cannot delete purchase with associated payments'')))
      (bindP (execute (delete_purchase i)) (\<lambda>rowcount.
       thenP commit (ret (rowcount > 0))))))"

section \<open>Supplier repository\<close>

definition Supplier_create :: "string \<Rightarrow> string option \<Rightarrow> string option \<Rightarrow> nat prog" where
  "Supplier_create name contact address =
     except_IntegrityError ''Supplier already exists''
      (bindP (execute (insert_supplier (strip name) contact address)) (\<lambda>supplier_id.
       thenP commit (ret supplier_id)))"

definition Supplier_update ::
  "nat \<Rightarrow> string option \<Rightarrow> string option \<Rightarrow> string option \<Rightarrow> bool prog" where
  "Supplier_update i name contact address =
     except_IntegrityError ''Supplier already exists''
      (if name = None \<and> contact = None \<and> address = None then ret False
       else
         bindP (execute (update_supplier (map_option strip name) contact address i))
           (\<lambda>rowcount.
         thenP commit (ret (rowcount > 0))))"

definition Supplier_delete :: "nat \<Rightarrow> bool prog" where
  "Supplier_delete i =
     except_sqlite_Error
      (bindP (query (\<lambda>d. length (filter (\<lambda>p. pur_supplier_id p = i) (purchases d))))
         (\<lambda>purchase_count.
       bindP (query (\<lambda>d. length (filter (\<lambda>p. pay_supplier_id p = i) (payments d))))
         (\<lambda>payment_count.
       thenP (whenP (purchase_count > 0 \<or> payment_count > 0)
                (raise (ValueError ''Cannot delete supplier with existing transactions'')))
      (bindP (execute (delete_supplier i)) (\<lambda>rowcount.
       thenP commit (ret (rowcount > 0)))))))"

text \<open>
  \<open>Supplier.get_by_id\<close>: the supplier left-joined with its purchases, the result
  left-joined with the supplier's payments, grouped by the supplier's id. A left join
  keeps a row without a match once, with \<^verbatim>\<open>NULL\<close>s; \<^verbatim>\<open>COUNT\<close> and \<^verbatim>\<open>SUM\<close> skip
  \<^verbatim>\<open>NULL\<close>s, and \<^verbatim>\<open>COALESCE(SUM(...), 0)\<close> is the sum of the values that are there.
\<close>

definition left_join :: "'a list \<Rightarrow> ('a \<Rightarrow> 'b list) \<Rightarrow> ('a \<times> 'b option) list" where
  "left_join rows matches =
     concat (map (\<lambda>r. case matches r of
                          [] \<Rightarrow> [(r, None)]
                        | m # ms \<Rightarrow> map (\<lambda>x. (r, Some x)) (m # ms)) rows)"

definition sql_count :: "'a option list \<Rightarrow> nat" where
  "sql_count vs = length (filter (\<lambda>v. v \<noteq> None) vs)"

definition coalesce_sum :: "money option list \<Rightarrow> money" where
  "coalesce_sum vs = sum_list (map (\<lambda>v. case v of None \<Rightarrow> 0 | Some x \<Rightarrow> x) vs)"

record supplier_details =
  sd_supplier :: supplier
  total_purchases :: nat
  total_purchase_amount :: money
  total_paid_amount :: money
  total_payments :: money

definition Supplier_get_by_id :: "db \<Rightarrow> nat \<Rightarrow> supplier_details option" where
  "Supplier_get_by_id d i =
     (let joined =
            left_join
              (left_join (suppliers d)
                 (\<lambda>s. filter (\<lambda>p. sup_id s = pur_supplier_id p) (purchases d)))
              (\<lambda>(s, p). filter (\<lambda>pay. sup_id s = pay_supplier_id pay) (payments d));
          rows = filter (\<lambda>((s, p), pay). sup_id s = i) joined
      in case rows of
           [] \<Rightarrow> None
         | ((s, p), pay) # rest \<Rightarrow>
             Some \<lparr>sd_supplier = s,
                   total_purchases = sql_count (map (\<lambda>((s, p), pay). map_option pur_id p) rows),
                   total_purchase_amount =
                     coalesce_sum (map (\<lambda>((s, p), pay). map_option pur_amount p) rows),
                   total_paid_amount =
                     coalesce_sum (map (\<lambda>((s, p), pay). map_option pur_paid_amount p) rows),
                   total_payments =
                     coalesce_sum (map (\<lambda>((s, p), pay). map_option pay_amount pay) rows)\<rparr>)"

section \<open>Invariants and runs\<close>

text \<open>Primary keys are distinct, and \<^verbatim>\<open>AUTOINCREMENT\<close> never hands out the purchase id 0.\<close>

definition keys_ok :: "db \<Rightarrow> bool" where
  "keys_ok d =
     (distinct (map pur_id (purchases d)) \<and> distinct (map pay_id (payments d))
      \<and> 0 \<notin> set (map pur_id (purchases d)))"

text \<open>The sum of the amounts of the payments linked to a purchase.\<close>

definition linked_total :: "db \<Rightarrow> nat \<Rightarrow> money" where
  "linked_total d pid =
     sum_list (map pay_amount (filter (\<lambda>p. pay_purchase_id p = Some pid) (payments d)))"

text \<open>Invariant I2: every purchase's \<open>paid_amount\<close> is the sum of its linked payments.\<close>

definition paid_matches_payments :: "db \<Rightarrow> bool" where
  "paid_matches_payments d =
     (\<forall>p \<in> set (purchases d). pur_paid_amount p = linked_total d (pur_id p))"

text \<open>Invariant I2 for the purchase with id \<open>k\<close>.\<close>

definition paid_matches :: "db \<Rightarrow> nat \<Rightarrow> bool" where
  "paid_matches d k =
     (\<forall>p \<in> set (purchases d). pur_id p = k \<longrightarrow> pur_paid_amount p = linked_total d k)"

text \<open>
  The from-scratch aggregate of a supplier: the sum of its purchases' amounts, minus the
  sum of their paid amounts, minus the sum of its payments that are linked to no purchase.
\<close>

definition supplier_aggregate :: "db \<Rightarrow> nat \<Rightarrow> money" where
  "supplier_aggregate d sid =
     sum_list (map pur_amount (filter (\<lambda>p. pur_supplier_id p = sid) (purchases d)))
     - sum_list (map pur_paid_amount (filter (\<lambda>p. pur_supplier_id p = sid) (purchases d)))
     - sum_list (map pay_amount
         (filter (\<lambda>p. pay_supplier_id p = sid \<and> pay_purchase_id p = None) (payments d)))"

text \<open>Invariant I3: every supplier's stored balance is its from-scratch aggregate.\<close>

definition balances_match :: "db \<Rightarrow> bool" where
  "balances_match d =
     (\<forall>s \<in> set (suppliers d). sup_balance s = supplier_aggregate d (sup_id s))"

text \<open>Invariant I1 for one purchase.\<close>

definition paid_in_range :: "purchase \<Rightarrow> bool" where
  "paid_in_range p = (0 \<le> pur_paid_amount p \<and> pur_paid_amount p \<le> pur_amount p)"

text \<open>
  A run of calls on the payment repository, each of which returns without an exception;
  the run is \<open>None\<close> as soon as one call raises.
\<close>

datatype payment_call =
    Create_payment string nat money string "nat option" "string option" "string option"
  | Update_payment nat "string option" "money option" "string option" "string option"
      "string option"
  | Delete_payment nat

definition returned :: "(error + 'a) \<times> conn \<Rightarrow> conn option" where
  "returned r = (case r of (Inl e, c) \<Rightarrow> None | (Inr a, c) \<Rightarrow> Some c)"

fun run_payment_call :: "payment_call \<Rightarrow> conn \<Rightarrow> conn option" where
  "run_payment_call (Create_payment date supplier_id amount payment_mode purchase_id
       reference_no notes) c =
     returned (Payment_create date supplier_id amount payment_mode purchase_id reference_no
                 notes c)"
| "run_payment_call (Update_payment i date amount payment_mode reference_no notes) c =
     returned (Payment_update i date amount payment_mode reference_no notes c)"
| "run_payment_call (Delete_payment i) c = returned (Payment_delete i c)"

fun run_payment_calls :: "payment_call list \<Rightarrow> conn \<Rightarrow> conn option" where
  "run_payment_calls [] c = Some c"
| "run_payment_calls (x # xs) c =
     (case run_payment_call x c of None \<Rightarrow> None | Some c' \<Rightarrow> run_payment_calls xs c')"

text \<open>
  Whether the double operations that a call makes on the paid amount of the purchase
  with id \<open>k\<close> are exact, that is, round nothing away; and whether all those of a run
  are.
\<close>

definition exact_add :: "money \<Rightarrow> money \<Rightarrow> bool" where
  "exact_add x y = (fadd x y = x + y)"

definition exact_sub :: "money \<Rightarrow> money \<Rightarrow> bool" where
  "exact_sub x y = (fsub x y = x - y)"

fun exact_on :: "nat \<Rightarrow> payment_call \<Rightarrow> conn \<Rightarrow> bool" where
  "exact_on k (Create_payment date supplier_id amount payment_mode purchase_id
       reference_no notes) c =
     (purchase_id = Some k \<longrightarrow>
        (\<forall>p \<in> set (purchases (working c)).
           pur_id p = k \<longrightarrow> exact_add (pur_paid_amount p) amount))"
| "exact_on k (Update_payment i date amount payment_mode reference_no notes) c =
     (case Payment_get_by_id (working c) i of
        None \<Rightarrow> True
      | Some cur \<Rightarrow>
          (case amount of
             None \<Rightarrow> True
           | Some a \<Rightarrow>
               pay_purchase_id cur = Some k \<longrightarrow>
                 exact_sub a (pay_amount cur)
                 \<and> (\<forall>p \<in> set (purchases (working c)).
                       pur_id p = k \<longrightarrow> exact_add (pur_paid_amount p) (a - pay_amount cur))))"
| "exact_on k (Delete_payment i) c =
     (case Payment_get_by_id (working c) i of
        None \<Rightarrow> True
      | Some cur \<Rightarrow>
          pay_purchase_id cur = Some k \<longrightarrow>
            (\<forall>p \<in> set (purchases (working c)).
               pur_id p = k \<longrightarrow> exact_sub (pur_paid_amount p) (pay_amount cur)))"

fun exact_run :: "nat \<Rightarrow> payment_call list \<Rightarrow> conn \<Rightarrow> bool" where
  "exact_run k [] c = True"
| "exact_run k (x # xs) c =
     (exact_on k x c
      \<and> (case run_payment_call x c of None \<Rightarrow> True | Some c' \<Rightarrow> exact_run k xs c'))"

text \<open>A run of successful \<open>Purchase.create\<close> and \<open>Payment.create\<close> calls.\<close>

datatype create_call =
    New_purchase string nat money "string option" money "string option" "string option"
  | New_payment string nat money string "nat option" "string option" "string option"

fun run_create_call :: "create_call \<Rightarrow> conn \<Rightarrow> conn option" where
  "run_create_call (New_purchase date supplier_id amount bill_no paid_amount items notes) c =
     returned (Purchase_create date supplier_id amount bill_no paid_amount items notes c)"
| "run_create_call (New_payment date supplier_id amount payment_mode purchase_id
       reference_no notes) c =
     returned (Payment_create date supplier_id amount payment_mode purchase_id reference_no
                 notes c)"

fun run_create_calls :: "create_call list \<Rightarrow> conn \<Rightarrow> conn option" where
  "run_create_calls [] c = Some c"
| "run_create_calls (x # xs) c =
     (case run_create_call x c of None \<Rightarrow> None | Some c' \<Rightarrow> run_create_calls xs c')"

section \<open>Example ledgers\<close>

text \<open>The supplier Acme, one purchase of 1000 of which \<open>paid\<close> is paid, and the payments \<open>pays\<close>.\<close>

definition acme :: "money \<Rightarrow> supplier" where
  "acme balance =
     \<lparr>sup_id = 1, sup_name = ''Acme'', sup_contact = None, sup_address = None,
      sup_balance = balance\<rparr>"

definition bill :: "money \<Rightarrow> money \<Rightarrow> purchase" where
  "bill amount paid =
     \<lparr>pur_id = 1, pur_date = ''2024-01-01'', pur_supplier_id = 1, pur_bill_no = None,
      pur_amount = amount, pur_paid_amount = paid, pur_items = None, pur_notes = None\<rparr>"

definition cash :: "nat \<Rightarrow> nat option \<Rightarrow> money \<Rightarrow> payment" where
  "cash i purchase_id amount =
     \<lparr>pay_id = i, pay_date = ''2024-01-02'', pay_supplier_id = 1,
      pay_purchase_id = purchase_id, pay_amount = amount, pay_mode = ''cash'',
      pay_reference_no = None, pay_notes = None\<rparr>"

definition ledger :: "supplier list \<Rightarrow> purchase list \<Rightarrow> payment list \<Rightarrow> nat \<Rightarrow> conn" where
  "ledger ss ps pays n =
     connect \<lparr>suppliers = ss, purchases = ps, payments = pays,
              seq_suppliers = length ss, seq_purchases = length ps, seq_payments = n\<rparr>"

text \<open>Scenario A: Acme and a purchase of 1000, nothing paid.\<close>

definition acme_unpaid :: conn where
  "acme_unpaid = ledger [acme 1000] [bill 1000 0] [] 0"

text \<open>Scenario B: a payment of 400 on that purchase.\<close>

definition acme_part_paid :: conn where
  "acme_part_paid = ledger [acme 600] [bill 1000 400] [cash 1 (Some 1) 400] 1"

text \<open>A purchase of 1000 created with \<open>paid_amount = 200\<close>, and no payment.\<close>

definition acme_prepaid :: conn where
  "acme_prepaid = ledger [acme 800] [bill 1000 200] [] 0"

text \<open>Scenario B after \<open>Purchase.update\<close> has set the paid amount back to 0.\<close>

definition acme_reset :: conn where
  "acme_reset = ledger [acme 600] [bill 1000 0] [cash 1 (Some 1) 400] 1"

text \<open>One purchase of 1000 and two advance payments, of 100 and of 200.\<close>

definition acme_two_advances :: conn where
  "acme_two_advances =
     ledger [acme 700] [bill 1000 0] [cash 1 None 100, cash 2 None 200] 2"

text \<open>A purchase of 989.43 created with \<open>paid_amount = 415.16\<close>.\<close>

definition acme_odd :: conn where
  "acme_odd =
     ledger [acme (fsub (fadd 0 (cents 98943)) (cents 41516))]
       [bill (cents 98943) (cents 41516)] [] 0"

text \<open>Scenario A followed by payments of 0.1 and of 0.2 on the purchase.\<close>

definition acme_tenths :: conn where
  "acme_tenths =
     ledger [acme (fsub (fsub 1000 (cents 10)) (cents 20))]
       [bill 1000 (fadd (fadd 0 (cents 10)) (cents 20))]
       [cash 1 (Some 1) (cents 10), cash 2 (Some 1) (cents 20)] 2"

text \<open>The same after the payment of 0.1 has been deleted.\<close>

definition acme_drift :: conn where
  "acme_drift =
     ledger [acme (fsub (fsub 1000 (cents 10)) (cents 20))]
       [bill 1000 (fsub (fadd (fadd 0 (cents 10)) (cents 20)) (cents 10))]
       [cash 2 (Some 1) (cents 20)] 2"

section \<open>Basic facts\<close>

lemmas prog_defs = ret_def raise_def bindP_def thenP_def whenP_def if_id_def query_def
  execute_def commit_def rollback_def faulty_def except_sqlite_Error_def
  except_IntegrityError_def

lemmas stmt_defs = insert_supplier_def insert_purchase_def insert_payment_def
  add_paid_amount_def delete_payment_def delete_purchase_def delete_supplier_def
  update_supplier_def update_purchase_def update_payment_def subtract_paid_amount_def
  update_supplier_balance_on_purchase_def update_supplier_balance_on_payment_def
  next_rowid_def supplier_by_id_def purchase_by_id_def payment_by_id_def
  purchase_of_supplier_def payment_modes_def patch_supplier_def patch_purchase_def
  patch_payment_def set_opt_def set_opt_col_def

lemmas example_defs = acme_def bill_def cash_def ledger_def connect_def empty_db_def
  acme_unpaid_def acme_part_paid_def acme_prepaid_def acme_reset_def acme_two_advances_def
  acme_odd_def acme_tenths_def acme_drift_def

text \<open>
  Rounding keeps the sign: the significand that is rounded is at least 1. So a difference
  of doubles is negative exactly when the exact difference is.
\<close>

lemma pow2_pos: "0 < pow2 e"
  by (simp add: pow2_def)

lemma round_even_ge_floor: "\<lfloor>m\<rfloor> \<le> round_even m"
  by (simp add: round_even_def Let_def)

lemma mantissa_ge_1:
  assumes "0 < y"
  shows "1 \<le> y / pow2 (exponent y)"
proof (cases "1 \<le> y")
  case True
  then have pos: "0 < \<lfloor>y\<rfloor>" by simp
  define b where "b = bitlen \<lfloor>y\<rfloor>"
  from bitlen_bounds [OF pos] have "2 ^ nat (b - 1) \<le> \<lfloor>y\<rfloor>" by (simp add: b_def)
  then have "of_int (2 ^ nat (b - 1)) \<le> y" by (simp only: le_floor_iff)
  then have low: "(2::rat) ^ nat (b - 1) \<le> y" by simp
  have e: "exponent y = b - 53" using True by (simp add: exponent_def b_def)
  show ?thesis
  proof (cases "0 \<le> b - 53")
    case True
    then have "nat (b - 53) \<le> nat (b - 1)" by simp
    then have "(2::rat) ^ nat (b - 53) \<le> 2 ^ nat (b - 1)"
      by (rule power_increasing) simp
    from this low have "(2::rat) ^ nat (b - 53) \<le> y" by (rule order_trans)
    with True show ?thesis by (simp add: e pow2_def)
  next
    case False
    have "1 \<le> (2::rat) ^ nat (53 - b)" by simp
    with \<open>1 \<le> y\<close> have "1 * 1 \<le> y * 2 ^ nat (53 - b)"
      by (intro mult_mono) simp_all
    with False show ?thesis by (simp add: e pow2_def)
  qed
next
  case False
  with assms have z: "1 < 1 / y" by simp
  then have pos: "0 < \<lfloor>1 / y\<rfloor>" by simp
  define k where "k = bitlen \<lfloor>1 / y\<rfloor>"
  have k0: "0 \<le> k" by (simp add: k_def bitlen_nonneg)
  from bitlen_bounds [OF pos] have "\<lfloor>1 / y\<rfloor> < 2 ^ nat k" by (simp add: k_def)
  then have "1 / y < of_int (2 ^ nat k)" by (simp only: floor_less_iff)
  then have "1 / y < 2 ^ nat k" by simp
  with assms have "1 < y * 2 ^ nat k" by (simp add: field_simps)
  also have "y * 2 ^ nat k \<le> y * 2 ^ nat (k + 52)"
    using assms k0 by (intro mult_left_mono power_increasing) simp_all
  finally have "1 \<le> y * 2 ^ nat (k + 52)" by simp
  moreover have "exponent y = - k - 52" using False by (simp add: exponent_def k_def)
  ultimately show ?thesis using k0 by (simp add: pow2_def add.commute)
qed

lemma double_sign:
  "(double x < 0) = (x < 0)" "(0 < double x) = (0 < x)"
proof -
  define v where "v = of_int (round_even (\<bar>x\<bar> / pow2 (exponent \<bar>x\<bar>))) * pow2 (exponent \<bar>x\<bar>)"
  have pos: "0 < v" if "x \<noteq> 0"
  proof -
    from that have "1 \<le> \<bar>x\<bar> / pow2 (exponent \<bar>x\<bar>)" by (intro mantissa_ge_1) simp
    then have "1 \<le> \<lfloor>\<bar>x\<bar> / pow2 (exponent \<bar>x\<bar>)\<rfloor>" by simp
    with round_even_ge_floor [of "\<bar>x\<bar> / pow2 (exponent \<bar>x\<bar>)"]
    have "0 < round_even (\<bar>x\<bar> / pow2 (exponent \<bar>x\<bar>))" by linarith
    then have "0 < (of_int (round_even (\<bar>x\<bar> / pow2 (exponent \<bar>x\<bar>))) :: rat)" by simp
    from this pow2_pos show ?thesis unfolding v_def by (rule mult_pos_pos)
  qed
  have d: "double x = (if x = 0 then 0 else sgn x * v)"
    by (simp add: double_def Let_def v_def)
  show "(double x < 0) = (x < 0)"
  proof (cases "x = 0")
    case True
    then show ?thesis by (simp add: double_def)
  next
    case False
    with pos have "0 < v" by simp
    with False show ?thesis by (simp add: d sgn_if)
  qed
  show "(0 < double x) = (0 < x)"
  proof (cases "x = 0")
    case True
    then show ?thesis by (simp add: double_def)
  next
    case False
    with pos have "0 < v" by simp
    with False show ?thesis by (simp add: d sgn_if)
  qed
qed

lemma fsub_negative: "(fsub x y < 0) = (x < y)"
  by (simp add: fsub_def double_sign)

text \<open>
  What is rounded to a whole number is a significand of 53 bits: \<open>double\<close> rounds to 53
  significant bits.
\<close>

lemma pow2_powi: "pow2 e = 2 powi e"
  by (simp add: pow2_def power_int_def field_simps)

lemma pow2_add: "pow2 (a + b) = pow2 a * pow2 b"
  by (simp add: pow2_powi power_int_add)

lemma mantissa_bounds:
  assumes "0 < y"
  shows "2 ^ 52 \<le> y / pow2 (exponent y) \<and> y / pow2 (exponent y) \<le> 2 ^ 53"
proof (cases "1 \<le> y")
  case True
  then have pos: "0 < \<lfloor>y\<rfloor>" by simp
  define b where "b = bitlen \<lfloor>y\<rfloor>"
  have e: "exponent y = b - 53" using True by (simp add: exponent_def b_def)
  from pos have b1: "1 \<le> b" unfolding b_def by (simp add: bitlen_alt_def)
  from bitlen_bounds [OF pos]
  have lo: "2 ^ nat (b - 1) \<le> \<lfloor>y\<rfloor>" and hi: "\<lfloor>y\<rfloor> < 2 ^ nat b" by (simp_all add: b_def)
  from lo have "of_int (2 ^ nat (b - 1)) \<le> y" by (simp only: le_floor_iff)
  then have lo': "2 ^ nat (b - 1) \<le> y" by simp
  from hi have "y < of_int (2 ^ nat b)" by (simp only: floor_less_iff)
  then have hi': "y < 2 ^ nat b" by simp
  have p52: "pow2 52 = 2 ^ 52" and p53: "pow2 53 = 2 ^ 53" by (simp_all add: pow2_def)
  have "pow2 (b - 1) = pow2 ((b - 53) + 52)" by simp
  also have "\<dots> = pow2 (b - 53) * 2 ^ 52" by (simp only: pow2_add p52)
  finally have s1: "pow2 (b - 53) * 2 ^ 52 = 2 ^ nat (b - 1)" using b1 by (simp add: pow2_def)
  have "pow2 b = pow2 ((b - 53) + 53)" by simp
  also have "\<dots> = pow2 (b - 53) * 2 ^ 53" by (simp only: pow2_add p53)
  finally have s2: "pow2 (b - 53) * 2 ^ 53 = 2 ^ nat b" using b1 by (simp add: pow2_def)
  from lo' s1 have low: "pow2 (b - 53) * 2 ^ 52 \<le> y" by simp
  from hi' s2 have high: "y < pow2 (b - 53) * 2 ^ 53" by simp
  from low high pow2_pos [of "b - 53"] show ?thesis
    unfolding e by (simp add: field_simps)
next
  case False
  with assms have z: "1 < 1 / y" by simp
  then have pos: "0 < \<lfloor>1 / y\<rfloor>" by simp
  define k where "k = bitlen \<lfloor>1 / y\<rfloor>"
  have e: "exponent y = - k - 52" using False by (simp add: exponent_def k_def)
  from pos have k1: "1 \<le> k" unfolding k_def by (simp add: bitlen_alt_def)
  from bitlen_bounds [OF pos]
  have lo: "2 ^ nat (k - 1) \<le> \<lfloor>1 / y\<rfloor>" and hi: "\<lfloor>1 / y\<rfloor> < 2 ^ nat k"
    by (simp_all add: k_def)
  from lo have "of_int (2 ^ nat (k - 1)) \<le> 1 / y" by (simp only: le_floor_iff)
  then have l1: "2 ^ nat (k - 1) \<le> 1 / y" by simp
  from hi have "1 / y < of_int (2 ^ nat k)" by (simp only: floor_less_iff)
  then have h1: "1 / y < 2 ^ nat k" by simp
  have p: "pow2 (- k - 52) = 1 / (2 ^ nat k * 2 ^ 52)"
    using k1 by (simp add: pow2_def nat_add_distrib power_add)
  have q: "(2::rat) ^ nat k = 2 * 2 ^ nat (k - 1)"
    using k1 by (metis Suc_nat_eq_nat_zadd1 add.commute diff_add_cancel diff_ge_0_iff_ge power_Suc)
  from h1 assms have a: "1 < y * 2 ^ nat k" by (simp add: field_simps)
  from l1 assms have b: "y * 2 ^ nat (k - 1) \<le> 1" by (simp add: field_simps)
  from a have "2 ^ 52 \<le> y * 2 ^ nat k * 2 ^ 52" by simp
  moreover from b q have "y * 2 ^ nat k * 2 ^ 52 \<le> 2 ^ 53" by simp
  ultimately show ?thesis unfolding e p by (simp add: field_simps)
qed

text \<open>
  Some values: 0.1, 0.2 and 989.43 as doubles, \<open>0.1 + 0.2 = 0.30000000000000004\<close>, and
  whole numbers, which are their own doubles.
\<close>

lemma double_examples:
  "cents 10 = 3602879701896397 / 2 ^ 55"
  "cents 20 = 3602879701896397 / 2 ^ 54"
  "cents 98943 = 8703118318963261 / 2 ^ 43"
  "fadd (cents 10) (cents 20) = 5404319552844596 / 2 ^ 54"
  "double (3 / 10) = 5404319552844595 / 2 ^ 54"
  "double 1000 = 1000"
  "fsub 1000 400 = 600"
  by code_simp+

text \<open>The only error of these statements is a violated constraint.\<close>

lemma insert_payment_error:
  "insert_payment date sid pid a m r n d = Inl e \<Longrightarrow> e = IntegrityError"
  by (simp add: insert_payment_def Let_def split: if_splits)

lemma add_paid_amount_error: "add_paid_amount delta pid d = Inl e \<Longrightarrow> e = IntegrityError"
  by (simp add: add_paid_amount_def split: if_splits)

lemma subtract_paid_amount_error:
  "subtract_paid_amount delta pid d = Inl e \<Longrightarrow> e = IntegrityError"
  by (simp add: subtract_paid_amount_def split: if_splits)

text \<open>The example ledgers are what the repositories make of an empty database.\<close>

lemma acme_unpaid_reached:
  "Supplier_create ''Acme'' None None (connect empty_db) = (Inr 1, ledger [acme 0] [] [] 0)"
  "Purchase_create ''2024-01-01'' 1 1000 None 0 None None (ledger [acme 0] [] [] 0)
     = (Inr 1, acme_unpaid)"
  by code_simp+

lemma acme_part_paid_reached:
  "Payment_create ''2024-01-02'' 1 400 ''cash'' (Some 1) None None acme_unpaid
     = (Inr 1, acme_part_paid)"
  by code_simp

lemma acme_prepaid_reached:
  "Purchase_create ''2024-01-01'' 1 1000 None 200 None None (ledger [acme 0] [] [] 0)
     = (Inr 1, acme_prepaid)"
  by code_simp

lemma acme_reset_reached:
  "Purchase_update 1 None None None None (Some 0) None None acme_part_paid
     = (Inr True, acme_reset)"
  by code_simp

lemma acme_two_advances_reached:
  "Payment_create ''2024-01-02'' 1 100 ''cash'' None None None acme_unpaid
     = (Inr 1, ledger [acme 900] [bill 1000 0] [cash 1 None 100] 1)"
  "Payment_create ''2024-01-02'' 1 200 ''cash'' None None None
       (ledger [acme 900] [bill 1000 0] [cash 1 None 100] 1)
     = (Inr 2, acme_two_advances)"
  by code_simp+

lemma acme_odd_reached:
  "Purchase_create ''2024-01-01'' 1 (cents 98943) None (cents 41516) None None
     (ledger [acme 0] [] [] 0) = (Inr 1, acme_odd)"
  by code_simp

lemma acme_tenths_reached:
  "Payment_create ''2024-01-02'' 1 (cents 10) ''cash'' (Some 1) None None acme_unpaid
     = (Inr 1, ledger [acme (fsub 1000 (cents 10))] [bill 1000 (fadd 0 (cents 10))]
         [cash 1 (Some 1) (cents 10)] 1)"
  "Payment_create ''2024-01-02'' 1 (cents 20) ''cash'' (Some 1) None None
       (ledger [acme (fsub 1000 (cents 10))] [bill 1000 (fadd 0 (cents 10))]
         [cash 1 (Some 1) (cents 10)] 1)
     = (Inr 2, acme_tenths)"
  by code_simp+

lemma acme_drift_reached: "Payment_delete 1 acme_tenths = (Inr True, acme_drift)"
  by code_simp

text \<open>Looking a row up by a key that is distinct in the table.\<close>

lemma find_key:
  "distinct (map f xs) \<Longrightarrow> x \<in> set xs \<Longrightarrow> find (\<lambda>y. f y = f x) xs = Some x"
  by (induction xs) (auto simp: image_iff)

lemma find_key_and:
  "distinct (map f xs) \<Longrightarrow> x \<in> set xs \<Longrightarrow>
   find (\<lambda>y. f y = f x \<and> P y) xs = (if P x then Some x else None)"
  by (induction xs) (auto simp: image_iff find_None_iff)

lemma strip_blank: "\<forall>ch \<in> set s. is_space ch \<Longrightarrow> strip s = []"
proof -
  assume "\<forall>ch \<in> set s. is_space ch"
  then have blank: "dropWhile is_space s = []" by (simp add: dropWhile_eq_Nil_conv)
  show ?thesis unfolding strip_def blank by simp
qed

lemma Payment_get_by_id_Some:
  "Payment_get_by_id d i = Some q \<Longrightarrow> q \<in> set (payments d) \<and> pay_id q = i"
  by (auto simp: Payment_get_by_id_def payment_by_id_def find_Some_iff
      split: option.splits)

text \<open>
  \<open>strip\<close> removes whitespace at both ends and nothing else, and what is left neither
  starts nor ends with whitespace.
\<close>

lemma strip_trims:
  "\<exists>a b. s = a @ strip s @ b \<and> (\<forall>ch \<in> set a. is_space ch) \<and> (\<forall>ch \<in> set b. is_space ch)"
  "strip s \<noteq> [] \<Longrightarrow> \<not> is_space (hd (strip s)) \<and> \<not> is_space (last (strip s))"
proof -
  define t where "t = dropWhile is_space s"
  have s: "s = takeWhile is_space s @ t" by (simp add: t_def)
  have "rev (takeWhile is_space (rev t) @ dropWhile is_space (rev t))
      = rev (dropWhile is_space (rev t)) @ rev (takeWhile is_space (rev t))"
    by (rule rev_append)
  then have "rev (rev t) = rev (dropWhile is_space (rev t)) @ rev (takeWhile is_space (rev t))"
    by (simp only: takeWhile_dropWhile_id)
  then have t: "t = strip s @ rev (takeWhile is_space (rev t))"
    by (simp only: rev_rev_ident strip_def t_def)
  have a: "\<forall>ch \<in> set (takeWhile is_space s). is_space ch"
    by (auto dest: set_takeWhileD)
  have b: "\<forall>ch \<in> set (rev (takeWhile is_space (rev t))). is_space ch"
    by (auto dest: set_takeWhileD)
  from s t have "s = takeWhile is_space s @ strip s @ rev (takeWhile is_space (rev t))"
    by simp
  with a b show "\<exists>a b. s = a @ strip s @ b \<and> (\<forall>ch \<in> set a. is_space ch)
      \<and> (\<forall>ch \<in> set b. is_space ch)" by blast
  assume ne: "strip s \<noteq> []"
  then have d: "dropWhile is_space (rev t) \<noteq> []" by (simp add: strip_def t_def)
  then have tne: "t \<noteq> []" by auto
  have "last (strip s) = hd (dropWhile is_space (rev t))"
    using d by (simp add: strip_def t_def last_rev)
  then have l: "\<not> is_space (last (strip s))" using d by (simp add: hd_dropWhile)
  have "hd (strip s) = last (dropWhile is_space (rev t))"
    using d by (simp add: strip_def t_def hd_rev)
  also have "\<dots> = last (rev t)"
    using d by (metis append_take_drop_id last_appendR takeWhile_dropWhile_id)
  also have "\<dots> = hd t" using tne by (simp add: last_rev)
  finally have "hd (strip s) = hd (dropWhile is_space s)" by (simp add: t_def)
  then have "\<not> is_space (hd (strip s))" using tne by (simp add: hd_dropWhile t_def)
  with l show "\<not> is_space (hd (strip s)) \<and> \<not> is_space (last (strip s))" by simp
qed

text \<open>\<open>Payment.create\<close> leaves no transaction open, whether it returns or raises.\<close>

lemma Payment_create_with_clean:
  "working c = committed c \<Longrightarrow>
   Payment_create_with fails date sid a m pid r n c = (res, c') \<Longrightarrow>
   working c' = committed c'"
  by (auto simp: Payment_create_with_def prog_defs Let_def
        dest!: insert_payment_error add_paid_amount_error
        split: option.splits if_splits sum.splits prod.splits)

section \<open>Atomicity of \<open>Payment.create\<close>\<close>

text \<open>
  Claim C4. When \<open>Payment.create\<close> is called with no transaction open and raises, whether
  on a failed validation or because the storage engine refuses the insert, the update of
  the purchase or the commit, the connection is what it was before the call: no payment
  row of the call is left, and the purchase and supplier rows are unchanged.
\<close>

theorem Payment_create_atomic:
  "working c = committed c \<Longrightarrow>
   Payment_create_with fails date supplier_id amount payment_mode purchase_id reference_no
     notes c = (Inl e, c') \<Longrightarrow> c' = c"
  by (auto simp: Payment_create_with_def prog_defs Let_def
        dest!: insert_payment_error add_paid_amount_error
        split: option.splits if_splits sum.splits prod.splits)

text \<open>
  The witness: the payment of scenario B with the update of the purchase failing, after
  the payment row has been inserted and the supplier's balance lowered.
\<close>

theorem Payment_create_atomic_witness:
  "working acme_unpaid = committed acme_unpaid
   \<and> Payment_create_with (\<lambda>s. s = Step_update) ''2024-01-02'' 1 400 ''cash'' (Some 1) None
        None acme_unpaid = (Inl OperationalError, acme_unpaid)"
proof -
  have clean: "working acme_unpaid = committed acme_unpaid"
    by (simp add: example_defs)
  have run: "Payment_create_with (\<lambda>s. s = Step_update) ''2024-01-02'' 1 400 ''cash'' (Some 1)
      None None acme_unpaid
    = (Inl OperationalError,
       snd (Payment_create_with (\<lambda>s. s = Step_update) ''2024-01-02'' 1 400 ''cash'' (Some 1)
         None None acme_unpaid))"
    by code_simp
  from Payment_create_atomic [OF clean run] run clean show ?thesis by simp
qed

section \<open>Protected deletes\<close>

text \<open>
  Claim C7. \<open>Supplier.delete\<close> of a supplier to which a purchase or a payment refers
  raises the \<open>ValueError\<close> of a conflict and changes nothing; \<open>Purchase.delete\<close> of a
  purchase to which a payment is linked does the same.
\<close>

theorem delete_blocked_by_transactions:
  "(i \<in> set (map pur_supplier_id (purchases (working c)))
      \<or> i \<in> set (map pay_supplier_id (payments (working c)))
    \<longrightarrow> Supplier_delete i c
          = (Inl (ValueError ''Cannot delete supplier with existing transactions''), c))
   \<and> (Some j \<in> set (map pay_purchase_id (payments (working c)))
    \<longrightarrow> Purchase_delete j c
          = (Inl (ValueError ''Cannot delete purchase with associated payments''), c))"
  by (auto simp: Supplier_delete_def Purchase_delete_def prog_defs filter_empty_conv)

theorem delete_blocked_by_transactions_witness:
  "Supplier_delete 1 acme_part_paid
     = (Inl (ValueError ''Cannot delete supplier with existing transactions''), acme_part_paid)
   \<and> Purchase_delete 1 acme_part_paid
     = (Inl (ValueError ''Cannot delete purchase with associated payments''), acme_part_paid)"
  using delete_blocked_by_transactions [of 1 acme_part_paid 1]
  by (simp add: example_defs)

section \<open>Updates that name no field\<close>

text \<open>
  Claim C10, as the code has it. With every optional field \<open>None\<close>, \<open>Supplier.update\<close>
  returns \<open>False\<close> and changes nothing, whether or not the id exists. \<open>Purchase.update\<close>
  and \<open>Payment.update\<close> first fetch the row: they return \<open>False\<close> and change nothing
  when it is there, and raise \<open>ValueError\<close>, changing nothing, when it is not.
\<close>

theorem update_nothing:
  "Supplier_update i None None None c = (Inr False, c)
   \<and> Purchase_update i None None None None None None None c
       = (if Purchase_get_by_id (working c) i = None
          then (Inl (ValueError ''Purchase does not exist''), c) else (Inr False, c))
   \<and> Payment_update i None None None None None c
       = (if Payment_get_by_id (working c) i = None
          then (Inl (ValueError ''Payment does not exist''), c) else (Inr False, c))"
  by (auto simp: Supplier_update_def Purchase_update_def Payment_update_def prog_defs
        split: option.splits)

theorem update_nothing_witness:
  "Supplier_update 1 None None None acme_part_paid = (Inr False, acme_part_paid)
   \<and> Purchase_update 1 None None None None None None None acme_part_paid
       = (Inr False, acme_part_paid)
   \<and> Payment_update 1 None None None None None acme_part_paid = (Inr False, acme_part_paid)"
  using update_nothing [of 1 acme_part_paid]
  by (simp add: Purchase_get_by_id_def Payment_get_by_id_def example_defs stmt_defs)

text \<open>The claim as it was stated fails for an id that does not exist: the call raises.\<close>

theorem update_missing_id_counterexample:
  "Purchase_update 7 None None None None None None None acme_part_paid
     = (Inl (ValueError ''Purchase does not exist''), acme_part_paid)
   \<and> Payment_update 7 None None None None None acme_part_paid
     = (Inl (ValueError ''Payment does not exist''), acme_part_paid)"
  by (simp add: Purchase_update_def Payment_update_def Purchase_get_by_id_def
      Payment_get_by_id_def prog_defs example_defs stmt_defs)

section \<open>Overpayment\<close>

text \<open>
  What the guards of \<open>Payment.create\<close> and \<open>Payment.update\<close> rule out is an amount
  above the outstanding amount as the code computes it, in doubles: then the call raises
  \<open>ValueError\<close> and changes nothing.
\<close>

lemma overpayment_guard:
  "p \<in> set (purchases (working c)) \<Longrightarrow> distinct (map pur_id (purchases (working c))) \<Longrightarrow>
   pur_id p \<noteq> 0 \<Longrightarrow>
   (fsub (pur_amount p) (pur_paid_amount p) < amount \<longrightarrow>
      (\<exists>m. Payment_create_with fails date supplier_id amount payment_mode (Some (pur_id p))
             reference_no notes c = (Inl (ValueError m), c)))
   \<and> (\<forall>q \<in> set (payments (working c)).
        distinct (map pay_id (payments (working c))) \<and> pay_purchase_id q = Some (pur_id p)
        \<and> pur_amount p < fadd (fsub (pur_paid_amount p) (pay_amount q)) new_amount \<longrightarrow>
        (\<exists>m. Payment_update (pay_id q) date' (Some new_amount) payment_mode' reference_no'
               notes' c = (Inl (ValueError m), c)))"
proof (intro conjI impI ballI)
  assume p: "p \<in> set (purchases (working c))"
    and d: "distinct (map pur_id (purchases (working c)))"
    and nz: "pur_id p \<noteq> 0"
  {
    assume over: "fsub (pur_amount p) (pur_paid_amount p) < amount"
    have look: "purchase_of_supplier (working c) (pur_id p) supplier_id
       = (if pur_supplier_id p = supplier_id then Some p else None)"
      unfolding purchase_of_supplier_def using find_key_and [OF d p] by simp
    from over nz show "\<exists>m. Payment_create_with fails date supplier_id amount payment_mode
        (Some (pur_id p)) reference_no notes c = (Inl (ValueError m), c)"
      by (simp add: Payment_create_with_def prog_defs look Let_def split: option.splits)
  }
  {
    fix q
    assume q: "q \<in> set (payments (working c))"
      and h: "distinct (map pay_id (payments (working c))) \<and> pay_purchase_id q = Some (pur_id p)
        \<and> pur_amount p < fadd (fsub (pur_paid_amount p) (pay_amount q)) new_amount"
    have pq: "payment_by_id (working c) (pay_id q) = Some q"
      unfolding payment_by_id_def using find_key [of pay_id, OF _ q] h by simp
    have pp: "purchase_by_id (working c) (pur_id p) = Some p"
      unfolding purchase_by_id_def using find_key [OF d p] by simp
    from h nz show "\<exists>m. Payment_update (pay_id q) date' (Some new_amount) payment_mode'
        reference_no' notes' c = (Inl (ValueError m), c)"
      by (simp add: Payment_update_def Payment_get_by_id_def prog_defs pq pp Let_def
          split: option.splits)
  }
qed

text \<open>
  Claim C1 fails on the code. The outstanding amount is a rounded difference, and a
  payment that equals it can still lift the rounded sum above the amount. For the
  purchase of 989.43 of which 415.16 are paid, \<open>989.43 - 415.16\<close> is the double 574.27,
  so a payment of 574.27 passes the guard; but \<open>415.16 + 574.27\<close> is above 989.43,
  exactly and as a double: \<open>Payment.create\<close> returns the new id and leaves the purchase
  with a \<open>paid_amount\<close> above its \<open>amount\<close>.
\<close>

theorem overpayment_accepted:
  "cents 98943 < cents 41516 + cents 57427
   \<and> Payment_create ''2024-01-02'' 1 (cents 57427) ''cash'' (Some 1) None None acme_odd
       = (Inr 1,
          ledger [acme (fsub (fsub (fadd 0 (cents 98943)) (cents 41516)) (cents 57427))]
            [bill (cents 98943) (fadd (cents 41516) (cents 57427))]
            [cash 1 (Some 1) (cents 57427)] 1)
   \<and> cents 98943 < fadd (cents 41516) (cents 57427)"
  by code_simp

section \<open>\<open>Purchase.update\<close> and the range of the paid amount\<close>

text \<open>
  Claim C5 fails on the code. \<open>Purchase.update\<close> compares a new \<open>paid_amount\<close> with the
  final amount, but a new \<open>amount\<close> given alone is only tested for being positive: on the
  purchase of 1000 of which 400 are paid, \<open>update(1, amount=100)\<close> returns \<open>True\<close> and
  leaves a purchase of 100 of which 400 are paid.
\<close>

theorem Purchase_update_lowers_amount:
  "Purchase_update 1 None None None (Some 100) None None None acme_part_paid
     = (Inr True, ledger [acme 600] [bill 100 400] [cash 1 (Some 1) 400] 1)
   \<and> paid_in_range (bill 1000 400) \<and> \<not> paid_in_range (bill 100 400)"
  by code_simp

section \<open>The totals of \<open>Supplier.get_by_id\<close>\<close>

text \<open>
  Claim C8 fails on the code. The two left joins pair every purchase of the supplier with
  every payment of the supplier, so each purchase is counted once per payment. For Acme
  with one purchase of 1000 and two payments, \<open>get_by_id\<close> reports 2 purchases of 2000
  in total, where there is 1 purchase of 1000.
\<close>

theorem Supplier_get_by_id_fan_out:
  "map_option (\<lambda>r. (total_purchases r, total_purchase_amount r, total_paid_amount r,
                     total_payments r))
     (Supplier_get_by_id (working acme_two_advances) 1) = Some (2, 2000, 0, 300)
   \<and> length (filter (\<lambda>p. pur_supplier_id p = 1) (purchases (working acme_two_advances))) = 1
   \<and> sum_list (map pur_amount
        (filter (\<lambda>p. pur_supplier_id p = 1) (purchases (working acme_two_advances)))) = 1000"
  by (simp add: Supplier_get_by_id_def left_join_def sql_count_def coalesce_sum_def
      example_defs)

section \<open>Names of suppliers\<close>

text \<open>
  Claim C9, as the code has it. \<open>Supplier.create\<close> stores the name stripped of the
  whitespace around it, also when nothing is left of it: a name of whitespace only is
  stored as the empty string. The call fails, with \<open>ValueError\<close> and without a new row,
  exactly when a supplier of the stripped name exists already.
\<close>

theorem Supplier_create_effect:
  "Supplier_create name contact address c =
     (if strip name \<in> set (map sup_name (suppliers (working c)))
      then (Inl (ValueError ''Supplier already exists''), c)
      else
        let i = next_rowid (seq_suppliers (working c)) (map sup_id (suppliers (working c)));
            d = (working c)\<lparr>suppliers := suppliers (working c) @
                    [\<lparr>sup_id = i, sup_name = strip name, sup_contact = contact,
                      sup_address = address, sup_balance = 0\<rparr>],
                  seq_suppliers := i\<rparr>
        in (Inr i, \<lparr>committed = d, working = d\<rparr>))
   \<and> ((\<forall>ch \<in> set name. is_space ch) \<longrightarrow> strip name = [])"
  by (simp add: Supplier_create_def insert_supplier_def prog_defs Let_def strip_blank)

theorem Supplier_create_effect_witness:
  "Supplier_create ''  Acme '' None None (connect empty_db) = (Inr 1, ledger [acme 0] [] [] 0)
   \<and> Supplier_create '' Acme'' None None (ledger [acme 0] [] [] 0)
       = (Inl (ValueError ''Supplier already exists''), ledger [acme 0] [] [] 0)
   \<and> strip '' '' = []"
  using Supplier_create_effect [of "''  Acme ''" None None "connect empty_db"]
    Supplier_create_effect [of "'' Acme''" None None "ledger [acme 0] [] [] 0"]
    Supplier_create_effect [of "'' ''" None None "connect empty_db"]
  by (simp add: example_defs strip_def is_space_def next_rowid_def Let_def)

text \<open>The claim as it was stated fails for a name of three spaces: the call succeeds.\<close>

theorem blank_name_counterexample:
  "Supplier_create ''   '' None None (connect empty_db)
     = (Inr 1, ledger [(acme 0)\<lparr>sup_name := []\<rparr>] [] [] 0)"
  by (simp add: Supplier_create_def prog_defs example_defs stmt_defs strip_def is_space_def)

section \<open>The effect of \<open>Payment.delete\<close>\<close>

text \<open>
  Claim C6, as the code has it. Let \<open>q\<close> be a payment linked to the purchase \<open>pid\<close>
  (primary keys distinct, the payment's supplier there, as the schema has it). If the
  purchase's \<open>paid_amount\<close> is at least the payment's amount, \<open>Payment.delete\<close> returns
  \<open>True\<close>, lowers that \<open>paid_amount\<close> by the payment's amount (the difference of the two
  doubles, as SQLite computes it), removes the payment row and changes nothing else: no
  supplier row, so no balance, is touched. If
  the \<open>paid_amount\<close> is smaller, the update violates \<^verbatim>\<open>CHECK(paid_amount >= 0)\<close> and the
  call raises the storage error after a rollback.
\<close>

theorem Payment_delete_effect:
  "q \<in> set (payments (working c)) \<Longrightarrow> distinct (map pay_id (payments (working c))) \<Longrightarrow>
   supplier_by_id (working c) (pay_supplier_id q) \<noteq> None \<Longrightarrow>
   pay_purchase_id q = Some pid \<Longrightarrow> pid \<noteq> 0 \<Longrightarrow>
   Payment_delete (pay_id q) c =
     (if \<exists>p \<in> set (purchases (working c)). pur_id p = pid \<and> pur_paid_amount p < pay_amount q
      then (Inl IntegrityError, rollback c)
      else
        let d = (working c)
                  \<lparr>purchases :=
                     map (\<lambda>p. if pur_id p = pid
                               then p\<lparr>pur_paid_amount :=
                                      fsub (pur_paid_amount p) (pay_amount q)\<rparr>
                               else p) (purchases (working c)),
                   payments := filter (\<lambda>x. pay_id x \<noteq> pay_id q) (payments (working c))\<rparr>
        in (Inr True, \<lparr>committed = d, working = d\<rparr>))"
proof -
  assume q: "q \<in> set (payments (working c))"
    and d: "distinct (map pay_id (payments (working c)))"
    and s: "supplier_by_id (working c) (pay_supplier_id q) \<noteq> None"
    and l: "pay_purchase_id q = Some pid" and nz: "pid \<noteq> 0"
  have pq: "payment_by_id (working c) (pay_id q) = Some q"
    unfolding payment_by_id_def using find_key [OF d q] by simp
  have cur: "Payment_get_by_id (working c) (pay_id q) = Some q"
    using s by (auto simp: Payment_get_by_id_def pq)
  have some: "filter (\<lambda>x. pay_id x = pay_id q) (payments (working c)) \<noteq> []"
    using q by (auto simp: filter_empty_conv)
  show ?thesis
    using l nz some
    by (auto simp: Payment_delete_def cur prog_defs subtract_paid_amount_def
        delete_payment_def fsub_negative Let_def)
qed

text \<open>The witness is scenario D: the payment of 400 is deleted, the balance stays 600.\<close>

theorem Payment_delete_effect_witness:
  "Payment_delete 1 acme_part_paid = (Inr True, ledger [acme 600] [bill 1000 0] [] 1)"
proof -
  have zero: "fsub 400 400 = 0" by code_simp
  from Payment_delete_effect [of "cash 1 (Some 1) 400" acme_part_paid 1] show ?thesis
    by (simp add: example_defs supplier_by_id_def Let_def zero)
qed

text \<open>
  The claim as it was stated fails once \<open>Purchase.update\<close> has set the paid amount of the
  purchase back to 0: the payment of 400 cannot be deleted.
\<close>

theorem Payment_delete_check_counterexample:
  "Payment_delete 1 acme_reset = (Inl IntegrityError, acme_reset)"
  by code_simp


section \<open>What a successful call does\<close>

text \<open>Row ids are fresh, and sums over a table follow a change of one row.\<close>

lemma fold_max_ge: "seq \<le> fold max ids (seq::nat) \<and> (\<forall>x \<in> set ids. x \<le> fold max ids seq)"
proof (induction ids arbitrary: seq)
  case Nil
  then show ?case by simp
next
  case (Cons a ids)
  from Cons.IH [of "max a seq"] show ?case by auto
qed

lemma next_rowid_fresh: "next_rowid seq ids \<notin> set ids" "next_rowid seq ids \<noteq> 0"
  using fold_max_ge [of seq ids] by (auto simp: next_rowid_def)

lemma map_other_key: "k \<notin> set (map f xs) \<Longrightarrow> map (\<lambda>x. if f x = k then g x else x) xs = xs"
  by (induction xs) auto

lemma filter_other_key: "k \<notin> set (map f xs) \<Longrightarrow> filter (\<lambda>x. f x \<noteq> k) xs = xs"
  by (induction xs) auto

lemma linked_sum_patch:
  "distinct (map pay_id qs) \<Longrightarrow> cur \<in> set qs \<Longrightarrow>
   sum_list (map pay_amount (filter (\<lambda>q. pay_purchase_id q = Some k)
     (map (\<lambda>q. if pay_id q = pay_id cur then patch_payment dt amt m r n q else q) qs)))
   = sum_list (map pay_amount (filter (\<lambda>q. pay_purchase_id q = Some k) qs))
     + (if pay_purchase_id cur = Some k then set_opt amt (pay_amount cur) - pay_amount cur
        else 0)"
proof (induction qs)
  case Nil
  then show ?case by simp
next
  case (Cons a qs)
  show ?case
  proof (cases "a = cur")
    case True
    with Cons.prems have "pay_id cur \<notin> set (map pay_id qs)" by auto
    then have "map (\<lambda>q. if pay_id q = pay_id cur then patch_payment dt amt m r n q else q) qs = qs"
      by (rule map_other_key)
    with True show ?thesis by (simp add: patch_payment_def)
  next
    case False
    with Cons.prems have "cur \<in> set qs" "distinct (map pay_id qs)" "pay_id a \<noteq> pay_id cur"
      by (auto simp: image_iff)
    with Cons.IH show ?thesis by simp
  qed
qed

lemma linked_sum_delete:
  "distinct (map pay_id qs) \<Longrightarrow> cur \<in> set qs \<Longrightarrow>
   sum_list (map pay_amount (filter (\<lambda>q. pay_purchase_id q = Some k)
     (filter (\<lambda>q. pay_id q \<noteq> pay_id cur) qs)))
   = sum_list (map pay_amount (filter (\<lambda>q. pay_purchase_id q = Some k) qs))
     - (if pay_purchase_id cur = Some k then pay_amount cur else 0)"
proof (induction qs)
  case Nil
  then show ?case by simp
next
  case (Cons a qs)
  show ?case
  proof (cases "a = cur")
    case True
    with Cons.prems have "pay_id cur \<notin> set (map pay_id qs)" by auto
    then have "filter (\<lambda>q. pay_id q \<noteq> pay_id cur) qs = qs"
      by (rule filter_other_key)
    with True show ?thesis by simp
  next
    case False
    with Cons.prems have "cur \<in> set qs" "distinct (map pay_id qs)" "pay_id a \<noteq> pay_id cur"
      by (auto simp: image_iff)
    with Cons.IH show ?thesis by simp
  qed
qed

text \<open>The tables after a call that returned, in terms of the tables before it.\<close>

lemma Payment_create_returns:
  assumes "Payment_create date sid a m pid r n c = (Inr i, c')"
  shows "\<exists>q. pay_purchase_id q = pid \<and> pay_amount q = a
     \<and> pay_id q = next_rowid (seq_payments (working c)) (map pay_id (payments (working c)))
     \<and> payments (working c') = payments (working c) @ [q]
     \<and> purchases (working c')
         = (case pid of
              None \<Rightarrow> purchases (working c)
            | Some k \<Rightarrow>
                if k = 0 then purchases (working c)
                else map (\<lambda>p. if pur_id p = k
                               then p\<lparr>pur_paid_amount := fadd (pur_paid_amount p) a\<rparr> else p)
                       (purchases (working c)))"
  using assms
  by (auto simp: Payment_create_def Payment_create_with_def prog_defs insert_payment_def
      add_paid_amount_def update_supplier_balance_on_payment_def Let_def
      split: option.splits if_splits sum.splits prod.splits)

lemma Payment_update_returns:
  assumes "Payment_update i date amt m r n c = (Inr b, c')"
  shows "\<exists>cur. Payment_get_by_id (working c) i = Some cur
     \<and> (if date = None \<and> amt = None \<and> m = None \<and> r = None \<and> n = None then c' = c
         else payments (working c')
                = map (\<lambda>q. if pay_id q = i then patch_payment date amt m r n q else q)
                    (payments (working c))
              \<and> purchases (working c')
                = (case amt of
                     None \<Rightarrow> purchases (working c)
                   | Some a \<Rightarrow>
                       (case pay_purchase_id cur of
                          None \<Rightarrow> purchases (working c)
                        | Some k \<Rightarrow>
                            if k = 0 then purchases (working c)
                            else map (\<lambda>p. if pur_id p = k
                                   then p\<lparr>pur_paid_amount :=
                                          fadd (pur_paid_amount p) (fsub a (pay_amount cur))\<rparr>
                                   else p) (purchases (working c)))))"
  using assms
  by (auto simp: Payment_update_def prog_defs update_payment_def add_paid_amount_def Let_def
      split: option.splits if_splits sum.splits prod.splits)

lemma Payment_delete_returns:
  assumes "Payment_delete i c = (Inr b, c')"
  shows "\<exists>cur. Payment_get_by_id (working c) i = Some cur
     \<and> payments (working c') = filter (\<lambda>q. pay_id q \<noteq> i) (payments (working c))
     \<and> purchases (working c')
         = (case pay_purchase_id cur of
              None \<Rightarrow> purchases (working c)
            | Some k \<Rightarrow>
                if k = 0 then purchases (working c)
                else map (\<lambda>p. if pur_id p = k
                       then p\<lparr>pur_paid_amount := fsub (pur_paid_amount p) (pay_amount cur)\<rparr>
                       else p) (purchases (working c)))"
  using assms
  by (auto simp: Payment_delete_def prog_defs delete_payment_def subtract_paid_amount_def
      Let_def split: option.splits if_splits sum.splits prod.splits)

lemma returned_Some: "returned r = Some c' \<Longrightarrow> \<exists>a. r = (Inr a, c')"
  by (auto simp: returned_def split: prod.splits sum.splits)

section \<open>Paid amounts and linked payments\<close>

lemma ids_bump:
  "map pur_id (map (\<lambda>p. if pur_id p = k then p\<lparr>pur_paid_amount := f p\<rparr> else p) ps)
   = map pur_id ps"
  by (induction ps) auto

lemma ids_patch:
  "map pay_id (map (\<lambda>q. if pay_id q = i then patch_payment date amt m r n q else q) qs)
   = map pay_id qs"
  by (induction qs) (auto simp: patch_payment_def)

text \<open>
  One step for the purchase \<open>k\<close>: the purchase \<open>j\<close> gets a new paid amount \<open>g\<close>, the linked
  total of \<open>k\<close> becomes \<open>L'\<close>.
\<close>

lemma paid_matches_step:
  assumes "\<forall>p \<in> set ps. pur_id p = k \<longrightarrow> pur_paid_amount p = L"
    and "j = k \<Longrightarrow> \<forall>p \<in> set ps. pur_id p = k \<longrightarrow> g p = pur_paid_amount p + delta"
    and "j = k \<Longrightarrow> L' = L + delta"
    and "j \<noteq> k \<Longrightarrow> L' = L"
  shows "\<forall>p' \<in> set (map (\<lambda>p. if pur_id p = j then p\<lparr>pur_paid_amount := g p\<rparr> else p) ps).
           pur_id p' = k \<longrightarrow> pur_paid_amount p' = L'"
  using assms by auto

lemma Payment_create_keeps:
  assumes k: "keys_ok (working c)" and m: "paid_matches (working c) k"
    and run: "Payment_create date sid a md pid r n c = (Inr i, c')"
    and ex: "exact_on k (Create_payment date sid a md pid r n) c"
  shows "keys_ok (working c') \<and> paid_matches (working c') k"
proof -
  from Payment_create_returns [OF run] obtain q where
    q: "pay_purchase_id q = pid" "pay_amount q = a"
      "pay_id q = next_rowid (seq_payments (working c)) (map pay_id (payments (working c)))"
    and pays: "payments (working c') = payments (working c) @ [q]"
    and purs: "purchases (working c')
         = (case pid of
              None \<Rightarrow> purchases (working c)
            | Some k \<Rightarrow>
                if k = 0 then purchases (working c)
                else map (\<lambda>p. if pur_id p = k
                               then p\<lparr>pur_paid_amount := fadd (pur_paid_amount p) a\<rparr> else p)
                       (purchases (working c)))"
    by blast
  have fresh: "pay_id q \<notin> set (map pay_id (payments (working c)))"
    unfolding q by (rule next_rowid_fresh)
  have ids: "map pur_id (purchases (working c')) = map pur_id (purchases (working c))"
    unfolding purs by (simp add: ids_bump split: option.splits)
  have keys: "keys_ok (working c')"
    using k fresh unfolding keys_ok_def ids pays by simp
  have total: "linked_total (working c') k
      = linked_total (working c) k + (if pid = Some k then a else 0)"
    unfolding linked_total_def pays using q by simp
  have no0: "\<forall>p \<in> set (purchases (working c)). pur_id p \<noteq> 0"
    using k by (auto simp: keys_ok_def)
  from m have m': "\<forall>p \<in> set (purchases (working c)).
      pur_id p = k \<longrightarrow> pur_paid_amount p = linked_total (working c) k"
    by (simp add: paid_matches_def)
  have "paid_matches (working c') k"
  proof (cases pid)
    case None
    with m' total purs show ?thesis by (simp add: paid_matches_def)
  next
    case (Some j)
    show ?thesis
    proof (cases "j = 0")
      case True
      with m' total purs Some no0 show ?thesis
        by (auto simp: paid_matches_def)
    next
      case False
      with purs Some have purs': "purchases (working c')
         = map (\<lambda>p. if pur_id p = j
                   then p\<lparr>pur_paid_amount := fadd (pur_paid_amount p) a\<rparr> else p)
             (purchases (working c))" by simp
      show ?thesis unfolding paid_matches_def purs'
      proof (rule paid_matches_step [where L = "linked_total (working c) k" and delta = a])
        show "\<forall>p \<in> set (purchases (working c)).
            pur_id p = k \<longrightarrow> pur_paid_amount p = linked_total (working c) k" by (rule m')
        show "\<forall>p \<in> set (purchases (working c)).
            pur_id p = k \<longrightarrow> fadd (pur_paid_amount p) a = pur_paid_amount p + a" if "j = k"
          using ex Some that by (simp add: exact_add_def)
        show "linked_total (working c') k = linked_total (working c) k + a" if "j = k"
          using total Some that by simp
        show "linked_total (working c') k = linked_total (working c) k" if "j \<noteq> k"
          using total Some that by simp
      qed
    qed
  qed
  with keys show ?thesis ..
qed


lemma Payment_update_keeps:
  assumes k: "keys_ok (working c)" and m: "paid_matches (working c) k"
    and run: "Payment_update i date amt md r n c = (Inr b, c')"
    and ex: "exact_on k (Update_payment i date amt md r n) c"
  shows "keys_ok (working c') \<and> paid_matches (working c') k"
proof (cases "date = None \<and> amt = None \<and> md = None \<and> r = None \<and> n = None")
  case True
  with Payment_update_returns [OF run] have "c' = c" by auto
  with k m show ?thesis by simp
next
  case False
  with Payment_update_returns [OF run] obtain cur where
    cur: "Payment_get_by_id (working c) i = Some cur"
    and pays: "payments (working c')
                = map (\<lambda>q. if pay_id q = i then patch_payment date amt md r n q else q)
                    (payments (working c))"
    and purs: "purchases (working c')
                = (case amt of
                     None \<Rightarrow> purchases (working c)
                   | Some a \<Rightarrow>
                       (case pay_purchase_id cur of
                          None \<Rightarrow> purchases (working c)
                        | Some k \<Rightarrow>
                            if k = 0 then purchases (working c)
                            else map (\<lambda>p. if pur_id p = k
                                   then p\<lparr>pur_paid_amount :=
                                          fadd (pur_paid_amount p) (fsub a (pay_amount cur))\<rparr>
                                   else p) (purchases (working c))))"
    by auto
  from Payment_get_by_id_Some [OF cur] have mem: "cur \<in> set (payments (working c))"
    and i: "i = pay_id cur" by simp_all
  from k have dist: "distinct (map pay_id (payments (working c)))" by (simp add: keys_ok_def)
  have ids: "map pur_id (purchases (working c')) = map pur_id (purchases (working c))"
    unfolding purs by (simp add: ids_bump split: option.splits)
  have pids: "map pay_id (payments (working c')) = map pay_id (payments (working c))"
    unfolding pays by (rule ids_patch)
  have keys: "keys_ok (working c')"
    using k unfolding keys_ok_def ids pids by simp
  have total: "linked_total (working c') k
      = linked_total (working c) k
        + (if pay_purchase_id cur = Some k then set_opt amt (pay_amount cur) - pay_amount cur
           else 0)"
    unfolding linked_total_def pays i by (rule linked_sum_patch [OF dist mem])
  have no0: "\<forall>p \<in> set (purchases (working c)). pur_id p \<noteq> 0"
    using k by (auto simp: keys_ok_def)
  from m have m': "\<forall>p \<in> set (purchases (working c)).
      pur_id p = k \<longrightarrow> pur_paid_amount p = linked_total (working c) k"
    by (simp add: paid_matches_def)
  have "paid_matches (working c') k"
  proof (cases amt)
    case None
    with m' total purs show ?thesis by (simp add: paid_matches_def set_opt_def)
  next
    case (Some a)
    show ?thesis
    proof (cases "pay_purchase_id cur")
      case None
      with m' total purs Some show ?thesis by (simp add: paid_matches_def)
    next
      case link: (Some j)
      show ?thesis
      proof (cases "j = 0")
        case True
        with m' total purs Some link no0 show ?thesis
          by (auto simp: paid_matches_def)
      next
        case False
        with purs Some link have purs': "purchases (working c')
           = map (\<lambda>p. if pur_id p = j
                     then p\<lparr>pur_paid_amount :=
                            fadd (pur_paid_amount p) (fsub a (pay_amount cur))\<rparr>
                     else p) (purchases (working c))" by simp
        show ?thesis unfolding paid_matches_def purs'
        proof (rule paid_matches_step [where L = "linked_total (working c) k"
              and delta = "a - pay_amount cur"])
          show "\<forall>p \<in> set (purchases (working c)).
              pur_id p = k \<longrightarrow> pur_paid_amount p = linked_total (working c) k" by (rule m')
          show "\<forall>p \<in> set (purchases (working c)). pur_id p = k \<longrightarrow>
              fadd (pur_paid_amount p) (fsub a (pay_amount cur))
              = pur_paid_amount p + (a - pay_amount cur)" if "j = k"
            using ex cur Some link that by (simp add: exact_add_def exact_sub_def)
          show "linked_total (working c') k = linked_total (working c) k + (a - pay_amount cur)"
            if "j = k"
            using total Some link that by (simp add: set_opt_def)
          show "linked_total (working c') k = linked_total (working c) k" if "j \<noteq> k"
            using total Some link that by simp
        qed
      qed
    qed
  qed
  with keys show ?thesis ..
qed

lemma Payment_delete_keeps:
  assumes k: "keys_ok (working c)" and m: "paid_matches (working c) k"
    and run: "Payment_delete i c = (Inr b, c')"
    and ex: "exact_on k (Delete_payment i) c"
  shows "keys_ok (working c') \<and> paid_matches (working c') k"
proof -
  from Payment_delete_returns [OF run] obtain cur where
    cur: "Payment_get_by_id (working c) i = Some cur"
    and pays: "payments (working c') = filter (\<lambda>q. pay_id q \<noteq> i) (payments (working c))"
    and purs: "purchases (working c')
         = (case pay_purchase_id cur of
              None \<Rightarrow> purchases (working c)
            | Some k \<Rightarrow>
                if k = 0 then purchases (working c)
                else map (\<lambda>p. if pur_id p = k
                       then p\<lparr>pur_paid_amount := fsub (pur_paid_amount p) (pay_amount cur)\<rparr>
                       else p) (purchases (working c)))"
    by auto
  from Payment_get_by_id_Some [OF cur] have mem: "cur \<in> set (payments (working c))"
    and i: "i = pay_id cur" by simp_all
  from k have dist: "distinct (map pay_id (payments (working c)))" by (simp add: keys_ok_def)
  have ids: "map pur_id (purchases (working c')) = map pur_id (purchases (working c))"
    unfolding purs by (simp add: ids_bump split: option.splits)
  have keys: "keys_ok (working c')"
    using k unfolding keys_ok_def ids pays by (simp add: distinct_map_filter)
  have total: "linked_total (working c') k
      = linked_total (working c) k
        - (if pay_purchase_id cur = Some k then pay_amount cur else 0)"
    unfolding linked_total_def pays i by (rule linked_sum_delete [OF dist mem])
  have no0: "\<forall>p \<in> set (purchases (working c)). pur_id p \<noteq> 0"
    using k by (auto simp: keys_ok_def)
  from m have m': "\<forall>p \<in> set (purchases (working c)).
      pur_id p = k \<longrightarrow> pur_paid_amount p = linked_total (working c) k"
    by (simp add: paid_matches_def)
  have "paid_matches (working c') k"
  proof (cases "pay_purchase_id cur")
    case None
    with m' total purs show ?thesis by (simp add: paid_matches_def)
  next
    case link: (Some j)
    show ?thesis
    proof (cases "j = 0")
      case True
      with m' total purs link no0 show ?thesis
        by (auto simp: paid_matches_def)
    next
      case False
      with purs link have purs': "purchases (working c')
         = map (\<lambda>p. if pur_id p = j
                   then p\<lparr>pur_paid_amount := fsub (pur_paid_amount p) (pay_amount cur)\<rparr>
                   else p) (purchases (working c))" by simp
      show ?thesis unfolding paid_matches_def purs'
      proof (rule paid_matches_step [where L = "linked_total (working c) k"
            and delta = "- pay_amount cur"])
        show "\<forall>p \<in> set (purchases (working c)).
            pur_id p = k \<longrightarrow> pur_paid_amount p = linked_total (working c) k" by (rule m')
        show "\<forall>p \<in> set (purchases (working c)). pur_id p = k \<longrightarrow>
            fsub (pur_paid_amount p) (pay_amount cur) = pur_paid_amount p + - pay_amount cur"
          if "j = k"
          using ex cur link that by (simp add: exact_sub_def)
        show "linked_total (working c') k = linked_total (working c) k + - pay_amount cur"
          if "j = k"
          using total link that by simp
        show "linked_total (working c') k = linked_total (working c) k" if "j \<noteq> k"
          using total link that by simp
      qed
    qed
  qed
  with keys show ?thesis ..
qed

lemma payment_call_keeps:
  assumes "keys_ok (working c)" "paid_matches (working c) k"
    and "run_payment_call x c = Some c'" and "exact_on k x c"
  shows "keys_ok (working c') \<and> paid_matches (working c') k"
proof (cases x)
  case (Create_payment date sid a md pid r n)
  with assms(3) obtain i where "Payment_create date sid a md pid r n c = (Inr i, c')"
    by (auto dest: returned_Some)
  from Payment_create_keeps [OF assms(1,2) this] assms(4) Create_payment show ?thesis by simp
next
  case (Update_payment i date amt md r n)
  with assms(3) obtain b where "Payment_update i date amt md r n c = (Inr b, c')"
    by (auto dest: returned_Some)
  from Payment_update_keeps [OF assms(1,2) this] assms(4) Update_payment show ?thesis by simp
next
  case (Delete_payment i)
  with assms(3) obtain b where "Payment_delete i c = (Inr b, c')"
    by (auto dest: returned_Some)
  from Payment_delete_keeps [OF assms(1,2) this] assms(4) Delete_payment show ?thesis by simp
qed

text \<open>
  Claim C2, as the code has it. In a database whose primary keys are distinct, take a
  purchase whose \<open>paid_amount\<close> is the sum of the amounts of the payments linked to it.
  After any run of \<open>Payment.create\<close>, \<open>Payment.update\<close> and \<open>Payment.delete\<close> calls
  that all return, and in which the double additions and subtractions made on that
  purchase's \<open>paid_amount\<close> round nothing away, its \<open>paid_amount\<close> is again the sum of
  the amounts of the payments linked to it. Nothing is said of a run that rounds.
\<close>

theorem payment_calls_keep_paid_sum:
  "keys_ok (working c) \<Longrightarrow> paid_matches (working c) k \<Longrightarrow>
   run_payment_calls xs c = Some c' \<Longrightarrow> exact_run k xs c \<Longrightarrow>
   keys_ok (working c') \<and> paid_matches (working c') k"
proof (induction xs arbitrary: c)
  case Nil
  then show ?case by simp
next
  case (Cons x xs)
  from Cons.prems(3) obtain c1 where step: "run_payment_call x c = Some c1"
    and rest: "run_payment_calls xs c1 = Some c'"
    by (auto split: option.splits)
  from Cons.prems(4) step have ex: "exact_on k x c" and exs: "exact_run k xs c1"
    by simp_all
  from payment_call_keeps [OF Cons.prems(1,2) step ex]
  have "keys_ok (working c1)" "paid_matches (working c1) k" by simp_all
  from Cons.IH [OF this rest exs] show ?case .
qed

text \<open>The witness: a payment of 400 on the unpaid purchase, raised to 500, then deleted.\<close>

theorem payment_calls_keep_paid_sum_witness:
  "keys_ok (working acme_unpaid) \<and> paid_matches (working acme_unpaid) 1
   \<and> run_payment_calls
        [Create_payment ''2024-01-02'' 1 400 ''cash'' (Some 1) None None,
         Update_payment 1 None (Some 500) None None None,
         Delete_payment 1]
        acme_unpaid = Some (ledger [acme 600] [bill 1000 0] [] 1)
   \<and> exact_run 1
        [Create_payment ''2024-01-02'' 1 400 ''cash'' (Some 1) None None,
         Update_payment 1 None (Some 500) None None None,
         Delete_payment 1]
        acme_unpaid
   \<and> paid_matches (working (ledger [acme 600] [bill 1000 0] [] 1)) 1"
proof -
  have k: "keys_ok (working acme_unpaid)" by code_simp
  have m: "paid_matches (working acme_unpaid) 1" by code_simp
  have run: "run_payment_calls
        [Create_payment ''2024-01-02'' 1 400 ''cash'' (Some 1) None None,
         Update_payment 1 None (Some 500) None None None,
         Delete_payment 1]
        acme_unpaid = Some (ledger [acme 600] [bill 1000 0] [] 1)"
    by code_simp
  have ex: "exact_run 1
        [Create_payment ''2024-01-02'' 1 400 ''cash'' (Some 1) None None,
         Update_payment 1 None (Some 500) None None None,
         Delete_payment 1]
        acme_unpaid"
    by code_simp
  from payment_calls_keep_paid_sum [OF k m run ex] k m run ex show ?thesis by simp
qed

text \<open>
  The claim as it was stated fails for a purchase that \<open>Purchase.create\<close> stored with
  \<open>paid_amount = 200\<close>: after one payment of 100 its paid amount is 300, the sum of its
  payments 100. It also fails where the additions round: after payments of 0.1 and of 0.2
  on the unpaid purchase and the deletion of the first, the paid amount is
  \<open>(0.1 + 0.2) - 0.1 = 0.20000000000000004\<close>, the one payment left 0.2.
\<close>

theorem paid_amount_not_sum_counterexample:
  "run_payment_calls [Create_payment ''2024-01-02'' 1 100 ''cash'' (Some 1) None None]
     acme_prepaid = Some (ledger [acme 700] [bill 1000 300] [cash 1 (Some 1) 100] 1)
   \<and> \<not> paid_matches_payments
         (working (ledger [acme 700] [bill 1000 300] [cash 1 (Some 1) 100] 1))
   \<and> paid_matches_payments (working acme_unpaid)
   \<and> run_payment_calls
        [Create_payment ''2024-01-02'' 1 (cents 10) ''cash'' (Some 1) None None,
         Create_payment ''2024-01-02'' 1 (cents 20) ''cash'' (Some 1) None None,
         Delete_payment 1]
        acme_unpaid = Some acme_drift
   \<and> \<not> paid_matches_payments (working acme_drift)"
  by code_simp

section \<open>Balances and the from-scratch aggregate\<close>

text \<open>
  Claim C3 fails on the code. The triggers add and subtract in doubles, one insert at a
  time, and the rounded results drift away from the aggregate. After the purchase of 1000
  and payments of 0.1 and of 0.2 on it, all created successfully, the stored balance is
  \<open>(1000 - 0.1) - 0.2 = 999.6999999999999\<close>, the stored \<open>paid_amount\<close> is
  \<open>0.1 + 0.2 = 0.30000000000000004\<close>, and the aggregate
  \<open>1000 - 0.30000000000000004\<close> is another number, computed exactly or in doubles.
\<close>

theorem balance_drifts_from_aggregate:
  "keys_ok (working (ledger [acme 0] [] [] 0))
   \<and> balances_match (working (ledger [acme 0] [] [] 0))
   \<and> run_create_calls
        [New_purchase ''2024-01-01'' 1 1000 None 0 None None,
         New_payment ''2024-01-02'' 1 (cents 10) ''cash'' (Some 1) None None,
         New_payment ''2024-01-02'' 1 (cents 20) ''cash'' (Some 1) None None]
        (ledger [acme 0] [] [] 0) = Some acme_tenths
   \<and> \<not> balances_match (working acme_tenths)
   \<and> fsub (fsub 1000 (cents 10)) (cents 20)
       \<noteq> fsub 1000 (fadd (fadd 0 (cents 10)) (cents 20))"
  by code_simp

text \<open>In particular the supplier's stored balance is not the aggregate after these creates.\<close>

theorem balance_drifts_from_aggregate_witness:
  "run_create_calls
        [New_purchase ''2024-01-01'' 1 1000 None 0 None None,
         New_payment ''2024-01-02'' 1 (cents 10) ''cash'' (Some 1) None None,
         New_payment ''2024-01-02'' 1 (cents 20) ''cash'' (Some 1) None None]
        (ledger [acme 0] [] [] 0) = Some acme_tenths
   \<and> \<not> balances_match (working acme_tenths)"
  using balance_drifts_from_aggregate by simp

end
